theory Spec2Isabelle
  imports Complex_Main "HOL-Library.Word"
begin

section \<open>JavaScript values used by the widget layer\<close>

text \<open>
  The file \<^verbatim>\<open>src/widget.ts\<close> binds Jupyter widget models to the core classes
  (\<^verbatim>\<open>./core/*\<close>, not part of the sources at hand). Objects have identity; a
  reference is a natural number.
\<close>

type_synonym ref = nat

text \<open>
  A JavaScript number, that is, a binary64 value: a finite value is the rational it
  denotes (\<open>Fin 0\<close> is the positive zero), beside the negative zero, both
  infinities and NaN.
\<close>

datatype jsnum = Fin rat | NegZero | PosInf | NegInf | NaN

text \<open>\<^verbatim>\<open>x > y\<close> on numbers; any comparison with NaN is false, and the two zeros are equal.\<close>

fun num_gt :: "jsnum \<Rightarrow> jsnum \<Rightarrow> bool" where
  "num_gt NaN _ = False"
| "num_gt _ NaN = False"
| "num_gt PosInf y = (y \<noteq> PosInf)"
| "num_gt _ PosInf = False"
| "num_gt NegInf _ = False"
| "num_gt _ NegInf = True"
| "num_gt (Fin a) (Fin b) = (b < a)"
| "num_gt (Fin a) NegZero = (0 < a)"
| "num_gt NegZero (Fin b) = (b < 0)"
| "num_gt NegZero NegZero = False"

text \<open>
  \<^verbatim>\<open>Math.max(...xs)\<close> as ECMAScript defines it: start from \<^verbatim>\<open>-Infinity\<close>; a NaN
  argument gives NaN; \<^verbatim>\<open>+0\<close> replaces \<^verbatim>\<open>-0\<close>; a greater number replaces the highest.
\<close>

definition max_step :: "jsnum \<Rightarrow> jsnum \<Rightarrow> jsnum" where
  "max_step highest number =
     (if number = Fin 0 \<and> highest = NegZero then Fin 0
      else if num_gt number highest then number else highest)"

fun Math_max_from :: "jsnum \<Rightarrow> jsnum list \<Rightarrow> jsnum" where
  "Math_max_from highest [] = highest"
| "Math_max_from highest (x # xs) =
     (if x = NaN then NaN else Math_max_from (max_step highest x) xs)"

definition Math_max :: "jsnum list \<Rightarrow> jsnum" where
  "Math_max xs = Math_max_from NegInf xs"

subsection \<open>Rounding to binary64\<close>

text \<open>
  Arithmetic on numbers rounds the exact result to the nearest binary64 value, ties to
  the even significand. A finite binary64 value is \<open>n * 2 ^ e\<close> with \<open>\<bar>n\<bar> < 2 ^ 53\<close> and
  \<open>- 1074 \<le> e \<le> 971\<close>.
\<close>

definition round_half_even :: "rat \<Rightarrow> int" where
  "round_half_even x =
     (let f = \<lfloor>x\<rfloor>; d = x - of_int f in
      if d < 1 / 2 then f else if 1 / 2 < d then f + 1 else if even f then f else f + 1)"

text \<open>\<open>ilog2 n\<close> is the floor of the binary logarithm of an integer \<open>n \<ge> 1\<close>.\<close>

function ilog2 :: "int \<Rightarrow> int" where
  "ilog2 n = (if n < 2 then 0 else 1 + ilog2 (n div 2))"
  by pat_completeness auto
termination
  by (relation "measure nat") auto

text \<open>The floor of the binary logarithm of a positive rational.\<close>

definition floor_log2 :: "rat \<Rightarrow> int" where
  "floor_log2 r = (if 1 \<le> r then ilog2 \<lfloor>r\<rfloor> else - (ilog2 (\<lceil>1 / r\<rceil> - 1) + 1))"

text \<open>
  The binary64 value of a positive rational \<open>r\<close>: the exponent \<open>e\<close> of the last
  place is 52 below the binary logarithm of \<open>r\<close>, and \<open>- 1074\<close> at least (subnormal
  range); \<open>r\<close> is rounded to a multiple \<open>n * 2 ^ e\<close>; a result of \<open>2 ^ 1024\<close> or more
  is an overflow to infinity.
\<close>

definition round64_pos :: "rat \<Rightarrow> jsnum" where
  "round64_pos r =
     (let e = max (floor_log2 r - 52) (- 1074);
          n = round_half_even (r / (2 powi e));
          y = of_int n * (2 powi e)
      in if 971 < e \<or> (e = 971 \<and> 2 ^ 53 \<le> n) then PosInf else Fin y)"

text \<open>The binary64 value of a nonzero exact result; a negative one that underflows is \<open>-0\<close>.\<close>

definition round64 :: "rat \<Rightarrow> jsnum" where
  "round64 r =
     (if r = 0 then Fin 0
      else if 0 < r then round64_pos r
      else (case round64_pos (- r) of
              PosInf \<Rightarrow> NegInf
            | Fin y \<Rightarrow> if y = 0 then NegZero else Fin (- y)
            | z \<Rightarrow> z))"

text \<open>
  The quotient \<^verbatim>\<open>1 / x\<close>: division by a zero gives an infinity, never an error, and
  the reciprocal of a finite nonzero number is rounded.
\<close>

fun one_over :: "jsnum \<Rightarrow> jsnum" where
  "one_over (Fin q) = (if q = 0 then PosInf else round64 (1 / q))"
| "one_over NegZero = NegInf"
| "one_over PosInf = Fin 0"
| "one_over NegInf = NegZero"
| "one_over NaN = NaN"

text \<open>\<^verbatim>\<open>x != 0\<close> on a number: false exactly for the two zeros (NaN differs from everything).\<close>

fun neq_zero :: "jsnum \<Rightarrow> bool" where
  "neq_zero (Fin q) = (q \<noteq> 0)"
| "neq_zero NegZero = False"
| "neq_zero _ = True"

subsection \<open>Array buffers and typed arrays\<close>

type_synonym byte = "8 word"

record array_buffer =
  ab_id :: ref
  ab_byteLength :: nat

record data_view =
  dv_buffer :: array_buffer
  dv_byteOffset :: nat
  dv_byteLength :: nat

datatype elem_kind = Float32 | Uint32

record typed_array =
  ta_kind :: elem_kind
  ta_buffer :: ref
  ta_byteOffset :: nat
  ta_length :: nat

datatype error = TypeError | RangeError | Unmodelled

text \<open>
  \<^verbatim>\<open>new Float32Array(buffer)\<close> and \<^verbatim>\<open>new Uint32Array(buffer)\<close>: a view on the
  whole buffer from offset 0; a byte length that is not a multiple of the element size
  (4 for both kinds) is a RangeError. No buffer is allocated.
\<close>

definition new_TypedArray :: "elem_kind \<Rightarrow> array_buffer \<Rightarrow> error + typed_array" where
  "new_TypedArray k buf =
     (if ab_byteLength buf mod 4 \<noteq> 0 then Inl RangeError
      else Inr \<lparr>ta_kind = k, ta_buffer = ab_id buf, ta_byteOffset = 0,
                ta_length = ab_byteLength buf div 4\<rparr>)"

text \<open>The bytes a view reads, given the current contents of every buffer.\<close>

definition ta_bytes :: "(ref \<Rightarrow> byte list) \<Rightarrow> typed_array \<Rightarrow> byte list" where
  "ta_bytes mem ta = take (4 * ta_length ta) (drop (ta_byteOffset ta) (mem (ta_buffer ta)))"

text \<open>The serialized form handed to a deserializer: an object whose \<^verbatim>\<open>data\<close> is a DataView.\<close>

record packed =
  data :: data_view

definition deserialize_float32array :: "packed \<Rightarrow> 'm \<Rightarrow> error + typed_array" where
  "deserialize_float32array d manager = new_TypedArray Float32 (dv_buffer (data d))"

definition deserialize_uint32array :: "packed \<Rightarrow> 'm \<Rightarrow> error + typed_array" where
  "deserialize_uint32array d manager = new_TypedArray Uint32 (dv_buffer (data d))"

subsection \<open>Values held by attributes\<close>

text \<open>
  \<open>VModel f r\<close> is a widget model as \<^verbatim>\<open>unpack_models\<close> delivers it, known by the
  one property \<open>f\<close> (\<^verbatim>\<open>component\<close>, \<^verbatim>\<open>data\<close>, \<^verbatim>\<open>block\<close> or \<^verbatim>\<open>obj\<close>) under
  which it holds its core object \<open>r\<close>; \<open>VObj r\<close> is a core object; \<open>VRec\<close> an object
  literal; \<open>VVec3\<close> a \<^verbatim>\<open>THREE.Vector3\<close>.
\<close>

datatype jsval =
    VUndefined
  | VNull
  | VBool bool
  | VNum jsnum
  | VStr string
  | VArr "jsval list"
  | VTyped typed_array
  | VVec3 jsnum jsnum jsnum
  | VRec "(string \<times> jsval) list"
  | VObj ref
  | VModel string ref

text \<open>\<^verbatim>\<open>typeof v == 'string'\<close>\<close>

fun is_string :: "jsval \<Rightarrow> bool" where
  "is_string (VStr _) = True"
| "is_string _ = False"

text \<open>
  Reading the property \<open>f\<close> of a value: a TypeError on \<^verbatim>\<open>undefined\<close> and
  \<^verbatim>\<open>null\<close>; a model gives its core object under its own property name and
  \<^verbatim>\<open>undefined\<close> under any other; an object literal gives what it holds. The
  names read below (\<^verbatim>\<open>component\<close>, \<^verbatim>\<open>data\<close>, \<^verbatim>\<open>block\<close>, \<^verbatim>\<open>obj\<close>) are
  undefined on every other value. What a core object answers is not known here.
\<close>

fun read_prop :: "jsval \<Rightarrow> string \<Rightarrow> error + jsval" where
  "read_prop VUndefined f = Inl TypeError"
| "read_prop VNull f = Inl TypeError"
| "read_prop (VModel g r) f = Inr (if g = f then VObj r else VUndefined)"
| "read_prop (VObj r) f = Inl Unmodelled"
| "read_prop (VRec kvs) f = Inr (case map_of kvs f of None \<Rightarrow> VUndefined | Some v \<Rightarrow> v)"
| "read_prop _ f = Inr VUndefined"

fun mapM :: "('a \<Rightarrow> error + 'b) \<Rightarrow> 'a list \<Rightarrow> error + 'b list" where
  "mapM f [] = Inr []"
| "mapM f (x # xs) =
     (case f x of Inl e \<Rightarrow> Inl e
      | Inr y \<Rightarrow> (case mapM f xs of Inl e \<Rightarrow> Inl e | Inr ys \<Rightarrow> Inr (y # ys)))"

text \<open>
  \<^verbatim>\<open>v.map(f)\<close>: only arrays are mapped here. Values without a \<^verbatim>\<open>map\<close> method
  raise a TypeError; typed arrays and core objects are outside the model.
\<close>

fun js_map :: "jsval \<Rightarrow> (jsval \<Rightarrow> error + jsval) \<Rightarrow> error + jsval list" where
  "js_map (VArr xs) f = mapM f xs"
| "js_map (VTyped _) f = Inl Unmodelled"
| "js_map (VObj _) f = Inl Unmodelled"
| "js_map _ f = Inl TypeError"

section \<open>The interface to the core\<close>

text \<open>
  Everything the widget layer does to the core is an entry of a log: a constructor call
  (the new object is at the given reference), a property assignment, a method call.
  What it reads from the core are two numeric properties of blocks.
\<close>

datatype ctor = Component | Data | PolyMesh | TetraMesh | IsoColor | IsoSurface | Threshold | Scene

datatype core_call =
    New ref ctor "jsval list"
  | Assign ref string jsval
  | Invoke ref string "jsval list"

record core =
  boundingSphereRadius :: "ref \<Rightarrow> jsnum"
  inputDimension :: "ref \<Rightarrow> jsnum"

section \<open>Widget models\<close>

datatype model_class =
    ComponentModel | DataModel | PolyMeshModel | TetraMeshModel
  | IsoColorModel | IsoSurfaceModel | ThresholdModel | SceneModel

text \<open>The closures passed to \<^verbatim>\<open>this.on\<close>, one name for each body.\<close>

datatype handler =
    SetArray | SetDefaultColor | SetDefaultAlpha | SetVertices | UpdateInput
  | SetMin | SetMax | SetValue | UpdateChildren

text \<open>
  A model: its class, its Backbone attributes, its registered listeners in order, and
  its core object (the field \<^verbatim>\<open>component\<close>, \<^verbatim>\<open>data\<close>, \<^verbatim>\<open>block\<close> or
  \<^verbatim>\<open>scene\<close>, according to the class).
\<close>

record wmodel =
  cls :: model_class
  attrs :: "string \<rightharpoonup> jsval"
  listeners :: "(string \<times> handler) list"
  core_obj :: ref

definition get :: "wmodel \<Rightarrow> string \<Rightarrow> jsval" where
  "get m k = (case attrs m k of None \<Rightarrow> VUndefined | Some v \<Rightarrow> v)"

definition on :: "string \<Rightarrow> handler \<Rightarrow> wmodel \<Rightarrow> wmodel" where
  "on ev h m = m\<lparr>listeners := listeners m @ [(ev, h)]\<rparr>"

subsection \<open>Defaults\<close>

text \<open>
  The attribute defaults of each class, on top of those of its superclass. The keys of
  the widget base classes (\<^verbatim>\<open>_model_name\<close>, \<^verbatim>\<open>_model_module\<close>, ...) are left out:
  nothing below reads them.
\<close>

definition ComponentModel_defaults :: "string \<rightharpoonup> jsval" where
  "ComponentModel_defaults = [''name'' \<mapsto> VStr [], ''array'' \<mapsto> VArr []]"

definition DataModel_defaults :: "string \<rightharpoonup> jsval" where
  "DataModel_defaults = [''name'' \<mapsto> VStr [], ''components'' \<mapsto> VArr []]"

definition BlockModel_defaults :: "string \<rightharpoonup> jsval" where
  "BlockModel_defaults =
     [''vertices'' \<mapsto> VArr [], ''data'' \<mapsto> VArr [], ''environment_meshes'' \<mapsto> VArr [],
      ''default_color'' \<mapsto> VStr ''#6395b0'', ''default_alpha'' \<mapsto> VNum (Fin 1)]"

definition PolyMeshModel_defaults :: "string \<rightharpoonup> jsval" where
  "PolyMeshModel_defaults = BlockModel_defaults(''triangle_indices'' \<mapsto> VArr [])"

definition TetraMeshModel_defaults :: "string \<rightharpoonup> jsval" where
  "TetraMeshModel_defaults = PolyMeshModel_defaults(''tetrahedron_indices'' \<mapsto> VArr [])"

definition EffectModel_defaults :: "string \<rightharpoonup> jsval" where
  "EffectModel_defaults = BlockModel_defaults(''parent'' \<mapsto> VNull, ''input'' \<mapsto> VNull)"

definition IsoColorModel_defaults :: "string \<rightharpoonup> jsval" where
  "IsoColorModel_defaults = EffectModel_defaults(''min'' \<mapsto> VNum (Fin 0), ''max'' \<mapsto> VNum (Fin 0))"

definition IsoSurfaceModel_defaults :: "string \<rightharpoonup> jsval" where
  "IsoSurfaceModel_defaults = EffectModel_defaults(''value'' \<mapsto> VNum (Fin 0))"

definition ThresholdModel_defaults :: "string \<rightharpoonup> jsval" where
  "ThresholdModel_defaults = EffectModel_defaults(''min'' \<mapsto> VNum (Fin 0), ''max'' \<mapsto> VNum (Fin 0))"

definition SceneModel_defaults :: "string \<rightharpoonup> jsval" where
  "SceneModel_defaults = [''background_color'' \<mapsto> VStr ''#fff'', ''children'' \<mapsto> VArr []]"

fun defaults :: "model_class \<Rightarrow> (string \<rightharpoonup> jsval)" where
  "defaults ComponentModel = ComponentModel_defaults"
| "defaults DataModel = DataModel_defaults"
| "defaults PolyMeshModel = PolyMeshModel_defaults"
| "defaults TetraMeshModel = TetraMeshModel_defaults"
| "defaults IsoColorModel = IsoColorModel_defaults"
| "defaults IsoSurfaceModel = IsoSurfaceModel_defaults"
| "defaults ThresholdModel = ThresholdModel_defaults"
| "defaults SceneModel = SceneModel_defaults"

text \<open>
  The model as the widget base class leaves it before the body of \<^verbatim>\<open>initialize\<close>
  runs: the given attributes over the defaults, no listener. The core object is the
  reference \<open>r\<close> at which the object this model constructs will live.
\<close>

definition new_model :: "ref \<Rightarrow> model_class \<Rightarrow> (string \<rightharpoonup> jsval) \<Rightarrow> wmodel" where
  "new_model r c attributes =
     \<lparr>cls = c, attrs = defaults c ++ attributes, listeners = [], core_obj = r\<rparr>"

subsection \<open>Getters\<close>

definition ComponentModel_component :: "jsval \<Rightarrow> error + jsval" where
  "ComponentModel_component componentModel = read_prop componentModel ''component''"

definition BlockModel_vertices :: "wmodel \<Rightarrow> jsval" where
  "BlockModel_vertices m = get m ''vertices''"

definition BlockModel_data :: "wmodel \<Rightarrow> error + jsval" where
  "BlockModel_data m =
     (case js_map (get m ''data'') (\<lambda>dataModel. read_prop dataModel ''data'') of
        Inl e \<Rightarrow> Inl e | Inr ds \<Rightarrow> Inr (VArr ds))"

definition BlockModel_environmentMeshes :: "wmodel \<Rightarrow> error + jsval" where
  "BlockModel_environmentMeshes m =
     (case js_map (get m ''environment_meshes'') (\<lambda>model. read_prop model ''obj'') of
        Inl e \<Rightarrow> Inl e | Inr ms \<Rightarrow> Inr (VArr ms))"

definition BlockModel_defaultColor :: "wmodel \<Rightarrow> jsval" where
  "BlockModel_defaultColor m = get m ''default_color''"

definition BlockModel_defaultAlpha :: "wmodel \<Rightarrow> jsval" where
  "BlockModel_defaultAlpha m = get m ''default_alpha''"

definition PolyMeshModel_triangleIndices :: "wmodel \<Rightarrow> jsval" where
  "PolyMeshModel_triangleIndices m = get m ''triangle_indices''"

definition TetraMeshModel_tetrahedronIndices :: "wmodel \<Rightarrow> jsval" where
  "TetraMeshModel_tetrahedronIndices m = get m ''tetrahedron_indices''"

definition EffectModel_parent :: "wmodel \<Rightarrow> jsval" where
  "EffectModel_parent m = get m ''parent''"

definition EffectModel_input :: "wmodel \<Rightarrow> jsval" where
  "EffectModel_input m = get m ''input''"

definition IsoColorModel_input :: "wmodel \<Rightarrow> jsval" where
  "IsoColorModel_input m =
     (let input = get m ''input'' in if is_string input then input else VArr [input])"

definition IsoSurfaceModel_input :: "wmodel \<Rightarrow> jsval" where
  "IsoSurfaceModel_input m =
     (let input = get m ''input'' in if is_string input then input else VArr [input])"

definition ThresholdModel_input :: "wmodel \<Rightarrow> jsval" where
  "ThresholdModel_input m =
     (let input = get m ''input'' in if is_string input then input else VArr [input])"

text \<open>\<^verbatim>\<open>this.input\<close>: the getter of the model's own class.\<close>

definition input :: "wmodel \<Rightarrow> jsval" where
  "input m =
     (case cls m of
        IsoColorModel \<Rightarrow> IsoColorModel_input m
      | IsoSurfaceModel \<Rightarrow> IsoSurfaceModel_input m
      | ThresholdModel \<Rightarrow> ThresholdModel_input m
      | _ \<Rightarrow> EffectModel_input m)"

definition IsoColorModel_min :: "wmodel \<Rightarrow> jsval" where
  "IsoColorModel_min m = get m ''min''"

definition IsoColorModel_max :: "wmodel \<Rightarrow> jsval" where
  "IsoColorModel_max m = get m ''max''"

definition IsoSurfaceModel_value :: "wmodel \<Rightarrow> jsval" where
  "IsoSurfaceModel_value m = get m ''value''"

definition ThresholdModel_min :: "wmodel \<Rightarrow> jsval" where
  "ThresholdModel_min m = get m ''min''"

definition ThresholdModel_max :: "wmodel \<Rightarrow> jsval" where
  "ThresholdModel_max m = get m ''max''"

subsection \<open>createBlock\<close>

text \<open>
  Each \<^verbatim>\<open>createBlock\<close> is one constructor call; the arguments are evaluated left to
  right, and a getter that throws does so before the constructor runs. The new block
  is at \<open>r\<close>.
\<close>

definition PolyMeshModel_createBlock :: "ref \<Rightarrow> wmodel \<Rightarrow> error + core_call" where
  "PolyMeshModel_createBlock r m =
     (case BlockModel_data m of Inl e \<Rightarrow> Inl e
      | Inr d \<Rightarrow>
          (case BlockModel_environmentMeshes m of Inl e \<Rightarrow> Inl e
           | Inr env \<Rightarrow>
               Inr (New r PolyMesh
                 [BlockModel_vertices m, PolyMeshModel_triangleIndices m, d,
                  VRec [(''environmentMeshes'', env)]])))"

definition TetraMeshModel_createBlock :: "ref \<Rightarrow> wmodel \<Rightarrow> error + core_call" where
  "TetraMeshModel_createBlock r m =
     (case BlockModel_data m of Inl e \<Rightarrow> Inl e
      | Inr d \<Rightarrow>
          (case BlockModel_environmentMeshes m of Inl e \<Rightarrow> Inl e
           | Inr env \<Rightarrow>
               Inr (New r TetraMesh
                 [BlockModel_vertices m, PolyMeshModel_triangleIndices m,
                  TetraMeshModel_tetrahedronIndices m, d,
                  VRec [(''environmentMeshes'', env)]])))"

definition IsoColorModel_createBlock :: "ref \<Rightarrow> wmodel \<Rightarrow> error + core_call" where
  "IsoColorModel_createBlock r m =
     (case read_prop (EffectModel_parent m) ''block'' of Inl e \<Rightarrow> Inl e
      | Inr pb \<Rightarrow> Inr (New r IsoColor [pb, input m, IsoColorModel_min m, IsoColorModel_max m]))"

definition IsoSurfaceModel_createBlock :: "ref \<Rightarrow> wmodel \<Rightarrow> error + core_call" where
  "IsoSurfaceModel_createBlock r m =
     (case read_prop (EffectModel_parent m) ''block'' of Inl e \<Rightarrow> Inl e
      | Inr pb \<Rightarrow> Inr (New r IsoSurface [pb, input m, IsoSurfaceModel_value m]))"

definition ThresholdModel_createBlock :: "ref \<Rightarrow> wmodel \<Rightarrow> error + core_call" where
  "ThresholdModel_createBlock r m =
     (case read_prop (EffectModel_parent m) ''block'' of Inl e \<Rightarrow> Inl e
      | Inr pb \<Rightarrow> Inr (New r Threshold [pb, input m, ThresholdModel_min m, ThresholdModel_max m]))"

text \<open>\<^verbatim>\<open>this.createBlock()\<close>: abstract in BlockModel, absent from the other classes.\<close>

definition createBlock :: "ref \<Rightarrow> wmodel \<Rightarrow> error + core_call" where
  "createBlock r m =
     (case cls m of
        PolyMeshModel \<Rightarrow> PolyMeshModel_createBlock r m
      | TetraMeshModel \<Rightarrow> TetraMeshModel_createBlock r m
      | IsoColorModel \<Rightarrow> IsoColorModel_createBlock r m
      | IsoSurfaceModel \<Rightarrow> IsoSurfaceModel_createBlock r m
      | ThresholdModel \<Rightarrow> ThresholdModel_createBlock r m
      | _ \<Rightarrow> Inl TypeError)"

subsection \<open>initEventListeners\<close>

definition BlockModel_initEventListeners :: "wmodel \<Rightarrow> wmodel" where
  "BlockModel_initEventListeners m =
     on ''change:default_alpha'' SetDefaultAlpha (on ''change:default_color'' SetDefaultColor m)"

definition PolyMeshModel_initEventListeners :: "wmodel \<Rightarrow> wmodel" where
  "PolyMeshModel_initEventListeners m =
     on ''change:vertices'' SetVertices (BlockModel_initEventListeners m)"

definition EffectModel_initEventListeners :: "wmodel \<Rightarrow> wmodel" where
  "EffectModel_initEventListeners m =
     on ''change:input'' UpdateInput (BlockModel_initEventListeners m)"

definition IsoColorModel_initEventListeners :: "wmodel \<Rightarrow> wmodel" where
  "IsoColorModel_initEventListeners m =
     on ''change:max'' SetMax (on ''change:min'' SetMin (EffectModel_initEventListeners m))"

definition IsoSurfaceModel_initEventListeners :: "wmodel \<Rightarrow> wmodel" where
  "IsoSurfaceModel_initEventListeners m =
     on ''change:value'' SetValue (EffectModel_initEventListeners m)"

definition ThresholdModel_initEventListeners :: "wmodel \<Rightarrow> wmodel" where
  "ThresholdModel_initEventListeners m =
     on ''change:max'' SetMax (on ''change:min'' SetMin (EffectModel_initEventListeners m))"

text \<open>\<^verbatim>\<open>this.initEventListeners()\<close>; TetraMeshModel inherits the method of PolyMeshModel.\<close>

definition initEventListeners :: "wmodel \<Rightarrow> wmodel" where
  "initEventListeners m =
     (case cls m of
        PolyMeshModel \<Rightarrow> PolyMeshModel_initEventListeners m
      | TetraMeshModel \<Rightarrow> PolyMeshModel_initEventListeners m
      | IsoColorModel \<Rightarrow> IsoColorModel_initEventListeners m
      | IsoSurfaceModel \<Rightarrow> IsoSurfaceModel_initEventListeners m
      | ThresholdModel \<Rightarrow> ThresholdModel_initEventListeners m
      | _ \<Rightarrow> m)"

subsection \<open>The bodies of the listeners\<close>

definition EffectModel_updateInput :: "core \<Rightarrow> wmodel \<Rightarrow> core_call list" where
  "EffectModel_updateInput c m =
     (if neq_zero (inputDimension c (core_obj m))
      then [Invoke (core_obj m) ''setInput'' [input m]]
      else [])"

text \<open>
  \<^verbatim>\<open>block.boundingSphereRadius\<close> as an argument of \<^verbatim>\<open>Math.max\<close>: the core's answer
  for a block, a TypeError on \<^verbatim>\<open>undefined\<close> and \<^verbatim>\<open>null\<close>, and NaN for a value
  without that property.
\<close>

fun block_radius :: "core \<Rightarrow> jsval \<Rightarrow> error + jsnum" where
  "block_radius c (VObj r) = Inr (boundingSphereRadius c r)"
| "block_radius c VUndefined = Inl TypeError"
| "block_radius c VNull = Inl TypeError"
| "block_radius c _ = Inr NaN"

text \<open>
  The loop of \<^verbatim>\<open>updateChildren\<close>, with the calls made so far and the error that
  stopped it, if any. Assigning a property of \<^verbatim>\<open>undefined\<close>, \<^verbatim>\<open>null\<close> or a
  primitive throws (module code is strict).
\<close>

fun add_blocks :: "ref \<Rightarrow> jsval \<Rightarrow> jsval list \<Rightarrow> core_call list \<times> error option" where
  "add_blocks scene scale [] = ([], None)"
| "add_blocks scene scale (VObj r # blocks) =
     (case add_blocks scene scale blocks of
        (l, e) \<Rightarrow> (Assign r ''scale'' scale # Invoke scene ''addChild'' [VObj r] # l, e))"
| "add_blocks scene scale (VUndefined # blocks) = ([], Some TypeError)"
| "add_blocks scene scale (VNull # blocks) = ([], Some TypeError)"
| "add_blocks scene scale (VBool _ # blocks) = ([], Some TypeError)"
| "add_blocks scene scale (VNum _ # blocks) = ([], Some TypeError)"
| "add_blocks scene scale (VStr _ # blocks) = ([], Some TypeError)"
| "add_blocks scene scale (_ # blocks) = ([], Some Unmodelled)"

definition SceneModel_updateChildren :: "core \<Rightarrow> wmodel \<Rightarrow> core_call list \<times> error option" where
  "SceneModel_updateChildren c m =
     (case js_map (get m ''children'') (\<lambda>child. read_prop child ''block'') of
        Inl e \<Rightarrow> ([], Some e)
      | Inr blocks \<Rightarrow>
          (case mapM (block_radius c) blocks of
             Inl e \<Rightarrow> ([], Some e)
           | Inr radii \<Rightarrow>
               (let boundingSphereRadius = Math_max radii;
                    scale = VVec3 (one_over boundingSphereRadius) (one_over boundingSphereRadius)
                              (one_over boundingSphereRadius)
                in add_blocks (core_obj m) scale blocks)))"

fun run_handler :: "core \<Rightarrow> handler \<Rightarrow> wmodel \<Rightarrow> core_call list \<times> error option" where
  "run_handler c SetArray m = ([Assign (core_obj m) ''array'' (get m ''array'')], None)"
| "run_handler c SetDefaultColor m =
     ([Assign (core_obj m) ''defaultColor'' (BlockModel_defaultColor m)], None)"
| "run_handler c SetDefaultAlpha m =
     ([Assign (core_obj m) ''defaultAlpha'' (BlockModel_defaultAlpha m)], None)"
| "run_handler c SetVertices m = ([Assign (core_obj m) ''vertices'' (BlockModel_vertices m)], None)"
| "run_handler c UpdateInput m = (EffectModel_updateInput c m, None)"
| "run_handler c SetMin m = ([Assign (core_obj m) ''min'' (get m ''min'')], None)"
| "run_handler c SetMax m = ([Assign (core_obj m) ''max'' (get m ''max'')], None)"
| "run_handler c SetValue m = ([Assign (core_obj m) ''value'' (IsoSurfaceModel_value m)], None)"
| "run_handler c UpdateChildren m = SceneModel_updateChildren c m"

subsection \<open>Events\<close>

text \<open>
  Backbone's \<^verbatim>\<open>trigger\<close>: the listeners of the event run in the order of their
  registration; one that throws stops the rest. \<open>set_attr\<close> is a change of one
  attribute as the widget base class delivers it: the new value is stored, then
  \<^verbatim>\<open>change:<name>\<close> fires. (Storing the value an attribute already has fires
  nothing and is not a change.) The core is read as it is when the event fires.
\<close>

fun run_listeners :: "core \<Rightarrow> wmodel \<Rightarrow> handler list \<Rightarrow> core_call list \<times> error option" where
  "run_listeners c m [] = ([], None)"
| "run_listeners c m (h # hs) =
     (case run_handler c h m of
        (l, Some e) \<Rightarrow> (l, Some e)
      | (l, None) \<Rightarrow> (case run_listeners c m hs of (l', e) \<Rightarrow> (l @ l', e)))"

definition trigger :: "core \<Rightarrow> string \<Rightarrow> wmodel \<Rightarrow> core_call list \<times> error option" where
  "trigger c ev m = run_listeners c m (map snd (filter (\<lambda>p. fst p = ev) (listeners m)))"

definition set_attr ::
  "core \<Rightarrow> string \<Rightarrow> jsval \<Rightarrow> wmodel \<Rightarrow> wmodel \<times> core_call list \<times> error option" where
  "set_attr c k v m =
     (let m' = m\<lparr>attrs := (attrs m)(k \<mapsto> v)\<rparr> in (m', trigger c (''change:'' @ k) m'))"

subsection \<open>initialize\<close>

definition ComponentModel_initialize :: "wmodel \<Rightarrow> core_call list \<times> (error + wmodel)" where
  "ComponentModel_initialize m =
     ([New (core_obj m) Component [get m ''name'', get m ''array'']],
      Inr (on ''change:array'' SetArray m))"

definition DataModel_initialize :: "wmodel \<Rightarrow> core_call list \<times> (error + wmodel)" where
  "DataModel_initialize m =
     (case js_map (get m ''components'') ComponentModel_component of
        Inl e \<Rightarrow> ([], Inl e)
      | Inr components \<Rightarrow>
          ([New (core_obj m) Data [get m ''name'', VArr components]], Inr m))"

definition BlockModel_initialize :: "wmodel \<Rightarrow> core_call list \<times> (error + wmodel)" where
  "BlockModel_initialize m =
     (case createBlock (core_obj m) m of
        Inl e \<Rightarrow> ([], Inl e)
      | Inr new_block \<Rightarrow>
          ([new_block, Assign (core_obj m) ''defaultColor'' (BlockModel_defaultColor m)],
           Inr (initEventListeners m)))"

definition SceneModel_initialize :: "core \<Rightarrow> wmodel \<Rightarrow> core_call list \<times> (error + wmodel)" where
  "SceneModel_initialize c m =
     (case SceneModel_updateChildren c m of
        (l, Some e) \<Rightarrow> (New (core_obj m) Scene [] # l, Inl e)
      | (l, None) \<Rightarrow>
          (New (core_obj m) Scene [] # l, Inr (on ''change:children'' UpdateChildren m)))"

text \<open>
  A model of class \<open>k\<close> created with the given attributes; its core object is built at
  \<open>r\<close>. The result is the log of calls into the core and the initialized model, or the
  error thrown.
\<close>

definition initialize ::
  "core \<Rightarrow> ref \<Rightarrow> model_class \<Rightarrow> (string \<rightharpoonup> jsval) \<Rightarrow> core_call list \<times> (error + wmodel)" where
  "initialize c r k attributes =
     (let m = new_model r k attributes in
      case k of
        ComponentModel \<Rightarrow> ComponentModel_initialize m
      | DataModel \<Rightarrow> DataModel_initialize m
      | SceneModel \<Rightarrow> SceneModel_initialize c m
      | _ \<Rightarrow> BlockModel_initialize m)"

subsection \<open>Serializers\<close>

datatype deserializer =
    Deserialize_float32array | Deserialize_uint32array | Unpack_models | Inherited nat

text \<open>
  The static \<^verbatim>\<open>serializers\<close> tables. An object literal with a spread is the spread
  table updated at the keys that follow it. \<open>base\<close> is the table of the widget base
  class, which belongs to the widget library.
\<close>

definition ComponentModel_serializers :: "(string \<rightharpoonup> deserializer) \<Rightarrow> (string \<rightharpoonup> deserializer)" where
  "ComponentModel_serializers base = base(''array'' \<mapsto> Deserialize_float32array)"

definition DataModel_serializers :: "(string \<rightharpoonup> deserializer) \<Rightarrow> (string \<rightharpoonup> deserializer)" where
  "DataModel_serializers base = base(''components'' \<mapsto> Unpack_models)"

definition BlockModel_serializers :: "(string \<rightharpoonup> deserializer) \<Rightarrow> (string \<rightharpoonup> deserializer)" where
  "BlockModel_serializers base =
     base(''vertices'' \<mapsto> Deserialize_float32array, ''data'' \<mapsto> Unpack_models,
          ''environment_meshes'' \<mapsto> Unpack_models)"

definition PolyMeshModel_serializers :: "(string \<rightharpoonup> deserializer) \<Rightarrow> (string \<rightharpoonup> deserializer)" where
  "PolyMeshModel_serializers base =
     (BlockModel_serializers base)(''triangle_indices'' \<mapsto> Deserialize_uint32array)"

definition TetraMeshModel_serializers :: "(string \<rightharpoonup> deserializer) \<Rightarrow> (string \<rightharpoonup> deserializer)" where
  "TetraMeshModel_serializers base =
     (PolyMeshModel_serializers base)(''tetrahedron_indices'' \<mapsto> Deserialize_uint32array)"

definition EffectModel_serializers :: "(string \<rightharpoonup> deserializer) \<Rightarrow> (string \<rightharpoonup> deserializer)" where
  "EffectModel_serializers base = (BlockModel_serializers base)(''parent'' \<mapsto> Unpack_models)"

definition SceneModel_serializers :: "(string \<rightharpoonup> deserializer) \<Rightarrow> (string \<rightharpoonup> deserializer)" where
  "SceneModel_serializers base = base(''children'' \<mapsto> Unpack_models)"

text \<open>The table a class answers with; the three effects inherit the static of EffectModel.\<close>

fun serializers :: "model_class \<Rightarrow> (string \<rightharpoonup> deserializer) \<Rightarrow> (string \<rightharpoonup> deserializer)" where
  "serializers ComponentModel = ComponentModel_serializers"
| "serializers DataModel = DataModel_serializers"
| "serializers PolyMeshModel = PolyMeshModel_serializers"
| "serializers TetraMeshModel = TetraMeshModel_serializers"
| "serializers IsoColorModel = EffectModel_serializers"
| "serializers IsoSurfaceModel = EffectModel_serializers"
| "serializers ThresholdModel = EffectModel_serializers"
| "serializers SceneModel = SceneModel_serializers"

text \<open>Running the two deserializers of this file; the others belong to the widget library.\<close>

fun run_deserializer :: "deserializer \<Rightarrow> packed \<Rightarrow> 'm \<Rightarrow> error + typed_array" where
  "run_deserializer Deserialize_float32array d manager = deserialize_float32array d manager"
| "run_deserializer Deserialize_uint32array d manager = deserialize_uint32array d manager"
| "run_deserializer _ d manager = Inl Unmodelled"

section \<open>The scene of the core\<close>

text \<open>
  Modelled from the spec: the class \<^verbatim>\<open>Scene\<close> of \<^verbatim>\<open>core/Scene\<close> is not among the
  sources. Section 4.8 of the specification says that \<^verbatim>\<open>addChild(block)\<close> appends.
\<close>

definition Scene_addChild :: "jsval list \<Rightarrow> jsval \<Rightarrow> jsval list" where
  "Scene_addChild children block = children @ [block]"

text \<open>
  The children of the scene \<open>s\<close> after a log of calls, for a given meaning \<open>add\<close> of
  \<^verbatim>\<open>addChild\<close>. Assignments to blocks and calls on other objects leave the list as
  it is.
\<close>

fun scene_children ::
  "(jsval list \<Rightarrow> jsval \<Rightarrow> jsval list) \<Rightarrow> ref \<Rightarrow> core_call list \<Rightarrow> jsval list \<Rightarrow> jsval list" where
  "scene_children add s [] children = children"
| "scene_children add s (Invoke r name [block] # l) children =
     (if r = s \<and> name = ''addChild''
      then scene_children add s l (add children block)
      else scene_children add s l children)"
| "scene_children add s (_ # l) children = scene_children add s l children"

text \<open>The calls that \<^verbatim>\<open>updateChildren\<close> is expected to make on behalf of the scene \<open>s\<close>.\<close>

fun is_scale_or_addChild :: "ref \<Rightarrow> core_call \<Rightarrow> bool" where
  "is_scale_or_addChild s (Assign b f (VVec3 x y z)) = (f = ''scale'')"
| "is_scale_or_addChild s (Invoke r name [VObj b]) = (r = s \<and> name = ''addChild'')"
| "is_scale_or_addChild s _ = False"

fun is_setInput :: "core_call \<Rightarrow> bool" where
  "is_setInput (Invoke r name args) = (name = ''setInput'')"
| "is_setInput _ = False"

section \<open>SceneView\<close>

text \<open>
  What the view does to the page, the renderer and its model, in order. Renderers are
  numbered as they are made. \<open>Displayed\<close> is the host resolving the promise
  \<^verbatim>\<open>this.displayed\<close>; \<open>Thrown\<close> an exception leaving a method of the view.
\<close>

datatype view_event =
    ClassList_add string
  | New_Renderer nat
  | Displayed
  | Renderer_initialize nat
  | Renderer_backgroundColor nat jsval
  | Window_addEventListener string
  | Model_on string
  | Renderer_resize nat
  | Renderer_dispose nat
  | Thrown error

text \<open>
  The view, the promise and the job queue. All reactions registered on
  \<^verbatim>\<open>this.displayed\<close> are the one arrow function of \<^verbatim>\<open>render\<close>, and all listeners
  installed are the two of \<^verbatim>\<open>initEventListeners\<close>, so their numbers are what matters.
\<close>

record scene_view =
  renderer :: "nat option"
  renderers_made :: nat
  displayed_settled :: bool
  displayed_reactions :: nat
  microtasks :: nat
  resize_listeners :: nat
  background_listeners :: nat
  background_color :: jsval
  trace :: "view_event list"

definition emit :: "view_event list \<Rightarrow> scene_view \<Rightarrow> scene_view" where
  "emit es v = v\<lparr>trace := trace v @ es\<rparr>"

definition SceneView_resize :: "scene_view \<Rightarrow> scene_view" where
  "SceneView_resize v =
     (case renderer v of None \<Rightarrow> emit [Thrown TypeError] v | Some n \<Rightarrow> emit [Renderer_resize n] v)"

definition SceneView_initEventListeners :: "scene_view \<Rightarrow> scene_view" where
  "SceneView_initEventListeners v =
     emit [Window_addEventListener ''resize'', Model_on ''change:background_color'']
       (v\<lparr>resize_listeners := Suc (resize_listeners v),
          background_listeners := Suc (background_listeners v)\<rparr>)"

text \<open>The arrow function given to \<^verbatim>\<open>this.displayed.then\<close>.\<close>

definition displayed_callback :: "scene_view \<Rightarrow> scene_view" where
  "displayed_callback v =
     (case renderer v of
        None \<Rightarrow> emit [Thrown TypeError] v
      | Some n \<Rightarrow>
          SceneView_initEventListeners
            (emit [Renderer_initialize n, Renderer_backgroundColor n (background_color v)] v))"

text \<open>
  \<^verbatim>\<open>promise.then(f)\<close>: on a pending promise \<open>f\<close> waits for the resolution; on a
  settled one it is queued as a job. It never runs inside \<^verbatim>\<open>then\<close>.
\<close>

definition displayed_then :: "scene_view \<Rightarrow> scene_view" where
  "displayed_then v =
     (if displayed_settled v then v\<lparr>microtasks := Suc (microtasks v)\<rparr>
      else v\<lparr>displayed_reactions := Suc (displayed_reactions v)\<rparr>)"

definition SceneView_render :: "scene_view \<Rightarrow> scene_view" where
  "SceneView_render v =
     displayed_then
       (emit [ClassList_add ''odysis-scene'', New_Renderer (renderers_made v)]
          (v\<lparr>renderer := Some (renderers_made v), renderers_made := Suc (renderers_made v)\<rparr>))"

text \<open>
  The host resolves \<^verbatim>\<open>this.displayed\<close>: the promise settles once, and the
  reactions waiting on it are queued as jobs.
\<close>

definition resolve_displayed :: "scene_view \<Rightarrow> scene_view" where
  "resolve_displayed v =
     (if displayed_settled v then v
      else emit [Displayed]
             (v\<lparr>displayed_settled := True,
                microtasks := microtasks v + displayed_reactions v,
                displayed_reactions := 0\<rparr>))"

text \<open>
  \<^verbatim>\<open>super.processPhosphorMessage(msg)\<close> is the method of \<^verbatim>\<open>DOMWidgetView\<close> in the
  widget library: on an \<^verbatim>\<open>after-attach\<close> message it triggers \<^verbatim>\<open>displayed\<close>, which
  resolves the promise; other messages it ignores.
\<close>

definition DOMWidgetView_processPhosphorMessage :: "string \<Rightarrow> scene_view \<Rightarrow> scene_view" where
  "DOMWidgetView_processPhosphorMessage msg_type v =
     (if msg_type = ''after-attach'' then resolve_displayed v else v)"

definition SceneView_processPhosphorMessage :: "string \<Rightarrow> scene_view \<Rightarrow> scene_view" where
  "SceneView_processPhosphorMessage msg_type v =
     (let v' = DOMWidgetView_processPhosphorMessage msg_type v in
      if msg_type = ''resize'' \<or> msg_type = ''after-show'' then SceneView_resize v' else v')"

text \<open>
  \<^verbatim>\<open>remove\<close> disposes of the renderer; \<^verbatim>\<open>super.remove()\<close> detaches the view and
  touches neither the renderer nor the promise.
\<close>

definition SceneView_remove :: "scene_view \<Rightarrow> scene_view" where
  "SceneView_remove v =
     (case renderer v of None \<Rightarrow> emit [Thrown TypeError] v | Some n \<Rightarrow> emit [Renderer_dispose n] v)"

text \<open>The listener of \<^verbatim>\<open>change:background_color\<close>.\<close>

definition background_listener :: "scene_view \<Rightarrow> scene_view" where
  "background_listener v =
     (case renderer v of
        None \<Rightarrow> emit [Thrown TypeError] v
      | Some n \<Rightarrow> emit [Renderer_backgroundColor n (background_color v)] v)"

text \<open>
  What can happen to a view: the host calls \<^verbatim>\<open>render\<close>, triggers
  \<^verbatim>\<open>displayed\<close> itself, runs a queued job, resizes the window, sends a message (an
  \<^verbatim>\<open>after-attach\<close> message is the usual display signal), changes the background
  colour of the model, or removes the view.
\<close>

datatype action =
    Render | Display | Job | WindowResize | PhosphorMessage string
  | ChangeBackground jsval | Remove

fun step :: "scene_view \<Rightarrow> action \<Rightarrow> scene_view" where
  "step v Render = SceneView_render v"
| "step v Display = resolve_displayed v"
| "step v Job =
     (if microtasks v = 0 then v else displayed_callback (v\<lparr>microtasks := microtasks v - 1\<rparr>))"
| "step v WindowResize = (SceneView_resize ^^ resize_listeners v) v"
| "step v (PhosphorMessage t) = SceneView_processPhosphorMessage t v"
| "step v (ChangeBackground col) =
     (background_listener ^^ background_listeners v) (v\<lparr>background_color := col\<rparr>)"
| "step v Remove = SceneView_remove v"

definition new_view :: "jsval \<Rightarrow> scene_view" where
  "new_view col =
     \<lparr>renderer = None, renderers_made = 0, displayed_settled = False, displayed_reactions = 0,
      microtasks = 0, resize_listeners = 0, background_listeners = 0, background_color = col,
      trace = []\<rparr>"

definition run :: "action list \<Rightarrow> scene_view \<Rightarrow> scene_view" where
  "run as v = foldl step v as"

text \<open>Events that the claim about ordering places after the initialization.\<close>

fun after_init :: "view_event \<Rightarrow> bool" where
  "after_init (Renderer_backgroundColor n col) = True"
| "after_init (Window_addEventListener t) = True"
| "after_init (Model_on ev) = True"
| "after_init _ = False"

fun is_initialize :: "view_event \<Rightarrow> bool" where
  "is_initialize (Renderer_initialize n) = True"
| "is_initialize _ = False"

text \<open>
  A trace is ordered when every initialization comes after \<open>Displayed\<close> and every
  event of \<open>after_init\<close> after an initialization; \<open>d\<close> and \<open>i\<close> say whether
  \<open>Displayed\<close> and an initialization have been seen.
\<close>

fun ordered :: "bool \<Rightarrow> bool \<Rightarrow> view_event list \<Rightarrow> bool" where
  "ordered d i [] = True"
| "ordered d i (e # t) =
     (if e = Displayed then ordered True i t
      else if is_initialize e then d \<and> ordered d True t
      else if after_init e then i \<and> ordered d i t
      else ordered d i t)"

text \<open>The actions through which the display signal reaches the view.\<close>

fun signals_display :: "action \<Rightarrow> bool" where
  "signals_display Display = True"
| "signals_display (PhosphorMessage t) = (t = ''after-attach'')"
| "signals_display _ = False"

text \<open>The renderer an event is about.\<close>

fun event_renderer :: "view_event \<Rightarrow> nat option" where
  "event_renderer (New_Renderer n) = Some n"
| "event_renderer (Renderer_initialize n) = Some n"
| "event_renderer (Renderer_backgroundColor n col) = Some n"
| "event_renderer (Renderer_resize n) = Some n"
| "event_renderer (Renderer_dispose n) = Some n"
| "event_renderer _ = None"

text \<open>
  The listeners a model of class \<open>k\<close> holds once \<^verbatim>\<open>initialize\<close> has returned: those
  registered on a fresh model by the \<^verbatim>\<open>on\<close> calls of the class.
\<close>

definition class_listeners :: "model_class \<Rightarrow> (string \<times> handler) list" where
  "class_listeners k =
     (let m = new_model 0 k Map.empty in
      listeners (case k of
        ComponentModel \<Rightarrow> on ''change:array'' SetArray m
      | DataModel \<Rightarrow> m
      | SceneModel \<Rightarrow> on ''change:children'' UpdateChildren m
      | _ \<Rightarrow> initEventListeners m))"

subsection \<open>The invariant of the view\<close>

text \<open>
  What holds of a view after any sequence of actions: its trace is ordered, a settled
  promise has left \<open>Displayed\<close> in the trace, jobs are queued only once the promise is
  settled, and listeners are installed only after an initialization. An event is
  neutral when the ordering does not constrain it.
\<close>

definition view_inv :: "scene_view \<Rightarrow> bool" where
  "view_inv v =
     (ordered False False (trace v)
      \<and> (displayed_settled v \<longrightarrow> Displayed \<in> set (trace v))
      \<and> (0 < microtasks v \<longrightarrow> displayed_settled v)
      \<and> (0 < resize_listeners v \<or> 0 < background_listeners v \<longrightarrow>
            list_ex is_initialize (trace v)))"

definition neutral :: "view_event \<Rightarrow> bool" where
  "neutral e = (e \<noteq> Displayed \<and> \<not> is_initialize e \<and> \<not> after_init e)"

text \<open>
  Renderers are numbered below \<open>renderers_made\<close>, and whatever waits for the view (a
  reaction, a job, a listener) was registered after \<^verbatim>\<open>render\<close> made a renderer.
\<close>

definition view_inv2 :: "scene_view \<Rightarrow> bool" where
  "view_inv2 v =
     ((\<forall>n. renderer v = Some n \<longrightarrow> n < renderers_made v)
      \<and> (\<forall>e\<in>set (trace v). \<forall>n. event_renderer e = Some n \<longrightarrow> n < renderers_made v)
      \<and> (0 < microtasks v \<or> 0 < displayed_reactions v \<or> 0 < resize_listeners v
           \<or> 0 < background_listeners v \<longrightarrow> renderer v \<noteq> None))"

section \<open>Example models\<close>

text \<open>
  A core whose effects are unbound, an IsoColor model over the parent block 0 with the
  input \<^verbatim>\<open>'u'\<close>, and a PolyMesh model with default attributes, both as
  \<^verbatim>\<open>initialize\<close> leaves them.
\<close>

definition example_core :: core where
  "example_core = \<lparr>boundingSphereRadius = (\<lambda>r. Fin 1), inputDimension = (\<lambda>r. Fin 0)\<rparr>"

definition example_isocolor :: wmodel where
  "example_isocolor =
     initEventListeners
       (new_model 1 IsoColorModel [''parent'' \<mapsto> VModel ''block'' 0, ''input'' \<mapsto> VStr ''u''])"

definition example_polymesh :: wmodel where
  "example_polymesh = initEventListeners (new_model 2 PolyMeshModel Map.empty)"

section \<open>Properties of the model operations\<close>

subsection \<open>The listeners of an initialized model\<close>

lemmas initEventListeners_defs =
  initEventListeners_def BlockModel_initEventListeners_def PolyMeshModel_initEventListeners_def
  EffectModel_initEventListeners_def IsoColorModel_initEventListeners_def
  IsoSurfaceModel_initEventListeners_def ThresholdModel_initEventListeners_def on_def

lemma class_listeners_simps:
  "class_listeners ComponentModel = [(''change:array'', SetArray)]"
  "class_listeners DataModel = []"
  "class_listeners PolyMeshModel =
     [(''change:default_color'', SetDefaultColor), (''change:default_alpha'', SetDefaultAlpha),
      (''change:vertices'', SetVertices)]"
  "class_listeners TetraMeshModel =
     [(''change:default_color'', SetDefaultColor), (''change:default_alpha'', SetDefaultAlpha),
      (''change:vertices'', SetVertices)]"
  "class_listeners IsoColorModel =
     [(''change:default_color'', SetDefaultColor), (''change:default_alpha'', SetDefaultAlpha),
      (''change:input'', UpdateInput), (''change:min'', SetMin), (''change:max'', SetMax)]"
  "class_listeners IsoSurfaceModel =
     [(''change:default_color'', SetDefaultColor), (''change:default_alpha'', SetDefaultAlpha),
      (''change:input'', UpdateInput), (''change:value'', SetValue)]"
  "class_listeners ThresholdModel =
     [(''change:default_color'', SetDefaultColor), (''change:default_alpha'', SetDefaultAlpha),
      (''change:input'', UpdateInput), (''change:min'', SetMin), (''change:max'', SetMax)]"
  "class_listeners SceneModel = [(''change:children'', UpdateChildren)]"
  by (simp_all add: class_listeners_def new_model_def initEventListeners_defs)

lemma initEventListeners_frame:
  "cls (initEventListeners m) = cls m \<and> attrs (initEventListeners m) = attrs m
   \<and> core_obj (initEventListeners m) = core_obj m"
  by (cases "cls m") (simp_all add: initEventListeners_defs)

lemma listeners_initEventListeners:
  "listeners m = [] \<Longrightarrow> cls m = k \<Longrightarrow> k \<noteq> ComponentModel \<Longrightarrow> k \<noteq> DataModel \<Longrightarrow> k \<noteq> SceneModel
   \<Longrightarrow> listeners (initEventListeners m) = class_listeners k"
  by (cases k) (simp_all add: class_listeners_simps initEventListeners_defs)

lemma initialized:
  assumes "initialize c r k a = (l, Inr m)"
  shows "cls m = k" and "core_obj m = r" and "attrs m = defaults k ++ a"
    and "listeners m = class_listeners k"
proof -
  have "cls m = k \<and> core_obj m = r \<and> attrs m = defaults k ++ a \<and> listeners m = class_listeners k"
  proof (cases k)
    case ComponentModel
    with assms show ?thesis
      by (auto simp: Let_def initialize_def ComponentModel_initialize_def new_model_def on_def
          class_listeners_simps)
  next
    case DataModel
    with assms show ?thesis
      by (auto simp: Let_def initialize_def DataModel_initialize_def new_model_def class_listeners_simps
          split: sum.splits)
  next
    case SceneModel
    with assms show ?thesis
      by (auto simp: Let_def initialize_def SceneModel_initialize_def new_model_def on_def
          class_listeners_simps split: prod.splits option.splits)
  next
    case PolyMeshModel
    with assms show ?thesis
      by (auto simp: Let_def initialize_def BlockModel_initialize_def initEventListeners_frame
          listeners_initEventListeners new_model_def split: sum.splits)
  next
    case TetraMeshModel
    with assms show ?thesis
      by (auto simp: Let_def initialize_def BlockModel_initialize_def initEventListeners_frame
          listeners_initEventListeners new_model_def split: sum.splits)
  next
    case IsoColorModel
    with assms show ?thesis
      by (auto simp: Let_def initialize_def BlockModel_initialize_def initEventListeners_frame
          listeners_initEventListeners new_model_def split: sum.splits)
  next
    case IsoSurfaceModel
    with assms show ?thesis
      by (auto simp: Let_def initialize_def BlockModel_initialize_def initEventListeners_frame
          listeners_initEventListeners new_model_def split: sum.splits)
  next
    case ThresholdModel
    with assms show ?thesis
      by (auto simp: Let_def initialize_def BlockModel_initialize_def initEventListeners_frame
          listeners_initEventListeners new_model_def split: sum.splits)
  qed
  then show "cls m = k" and "core_obj m = r" and "attrs m = defaults k ++ a"
    and "listeners m = class_listeners k" by simp_all
qed

lemma set_attr_listeners:
  "listeners m = ls \<Longrightarrow>
   set_attr c p v m =
     (m\<lparr>attrs := (attrs m)(p \<mapsto> v)\<rparr>,
      run_listeners c (m\<lparr>attrs := (attrs m)(p \<mapsto> v)\<rparr>)
        (map snd (filter (\<lambda>q. fst q = ''change:'' @ p) ls)))"
  by (simp add: set_attr_def trigger_def Let_def)

subsection \<open>Rounding at some values\<close>

lemma round64_quarter: "round64 (1 / 4) = Fin (1 / 4)"
  by code_simp

lemma round64_third: "round64 (1 / 3) = Fin (6004799503160661 / 18014398509481984)"
  by code_simp

lemma round64_tenth: "round64 (1 / 10) = Fin (3602879701896397 / 36028797018963968)"
  by code_simp

subsection \<open>The log of updateChildren\<close>

lemma mapM_read_block:
  "mapM (\<lambda>child. read_prop child ''block'') (map (VModel ''block'') bs) = Inr (map VObj bs)"
  by (induction bs) simp_all

lemma mapM_block_radius:
  "mapM (block_radius c) (map VObj bs) = Inr (map (boundingSphereRadius c) bs)"
  by (induction bs) simp_all

lemma add_blocks_objs:
  "add_blocks s scale (map VObj bs) =
     (concat (map (\<lambda>b. [Assign b ''scale'' scale, Invoke s ''addChild'' [VObj b]]) bs), None)"
  by (induction bs) simp_all

lemma max_step_Fin: "max_step (Fin a) (Fin b) = Fin (max a b)"
  by (auto simp: max_step_def)

lemma Math_max_from_Fin: "Math_max_from (Fin a) (map Fin qs) = Fin (Max (insert a (set qs)))"
proof (induction qs arbitrary: a)
  case Nil
  then show ?case by simp
next
  case (Cons q qs)
  have "Max (insert (max a q) (set qs)) = Max (insert a (insert q (set qs)))"
    by (cases "set qs = {}") (simp_all add: max.assoc)
  with Cons show ?case by (simp add: max_step_Fin)
qed

lemma Math_max_Fin: "qs \<noteq> [] \<Longrightarrow> Math_max (map Fin qs) = Fin (Max (set qs))"
  by (cases qs) (simp_all add: Math_max_def max_step_def Math_max_from_Fin)



lemma updateChildren_blocks:
  "get m ''children'' = VArr (map (VModel ''block'') bs) \<Longrightarrow>
   SceneModel_updateChildren c m =
     (concat (map (\<lambda>b. [Assign b ''scale''
                            (VVec3 (one_over (Math_max (map (boundingSphereRadius c) bs)))
                                   (one_over (Math_max (map (boundingSphereRadius c) bs)))
                                   (one_over (Math_max (map (boundingSphereRadius c) bs)))),
                          Invoke (core_obj m) ''addChild'' [VObj b]]) bs), None)"
  by (simp add: SceneModel_updateChildren_def mapM_read_block mapM_block_radius add_blocks_objs Let_def)

lemma add_blocks_calls:
  "add_blocks s sc bl = (l, e) \<Longrightarrow>
   \<forall>x\<in>set l. (\<exists>b. x = Assign b ''scale'' sc) \<or> (\<exists>b. x = Invoke s ''addChild'' [VObj b])"
  by (induction s sc bl arbitrary: l e rule: add_blocks.induct) (auto split: prod.splits)

lemma updateChildren_calls:
  assumes "SceneModel_updateChildren c m = (l, e)"
  shows "\<exists>sx. \<forall>x\<in>set l. (\<exists>b. x = Assign b ''scale'' (VVec3 sx sx sx))
                     \<or> (\<exists>b. x = Invoke (core_obj m) ''addChild'' [VObj b])"
  using assms
  by (auto simp: SceneModel_updateChildren_def Let_def split: sum.splits dest!: add_blocks_calls)

lemma scene_children_add_blocks:
  "add_blocks s sc bl = (l, e) \<Longrightarrow>
   \<exists>added. (\<forall>add old. scene_children add s l old = foldl add old added)
          \<and> (\<forall>bs. bl = map VObj bs \<longrightarrow> added = bl \<and> e = None)"
proof (induction s sc bl arbitrary: l e rule: add_blocks.induct)
  case (2 scene scale r blocks)
  obtain l' e' where le: "add_blocks scene scale blocks = (l', e')" by (cases "add_blocks scene scale blocks")
  from "2.IH" [OF le] obtain added where
    a: "\<forall>add old. scene_children add scene l' old = foldl add old added"
      "\<forall>bs. blocks = map VObj bs \<longrightarrow> added = blocks \<and> e' = None" by blast
  from "2.prems" le have l: "l = Assign r ''scale'' scale # Invoke scene ''addChild'' [VObj r] # l'"
    and e: "e = e'" by simp_all
  have "\<forall>add old. scene_children add scene l old = foldl add old (VObj r # added)"
    using a(1) by (simp add: l)
  moreover have "\<forall>bs. VObj r # blocks = map VObj bs \<longrightarrow> VObj r # added = VObj r # blocks \<and> e = None"
    using a(2) e by (auto simp: Cons_eq_map_conv)
  ultimately show ?case by blast
qed (auto intro: exI [of _ "[]"])

lemma foldl_Scene_addChild: "foldl Scene_addChild old added = old @ added"
  by (induction added arbitrary: old) (simp_all add: Scene_addChild_def)

subsection \<open>Attributes, getters and constructors\<close>

lemma get_upd: "get (m\<lparr>attrs := (attrs m)(p \<mapsto> v)\<rparr>) q = (if q = p then v else get m q)"
  by (simp add: get_def)

lemmas getter_defs =
  BlockModel_vertices_def BlockModel_data_def BlockModel_environmentMeshes_def
  BlockModel_defaultColor_def BlockModel_defaultAlpha_def PolyMeshModel_triangleIndices_def
  TetraMeshModel_tetrahedronIndices_def EffectModel_parent_def EffectModel_input_def
  IsoColorModel_input_def IsoSurfaceModel_input_def ThresholdModel_input_def input_def
  IsoColorModel_min_def IsoColorModel_max_def IsoSurfaceModel_value_def
  ThresholdModel_min_def ThresholdModel_max_def

lemmas createBlock_defs =
  createBlock_def PolyMeshModel_createBlock_def TetraMeshModel_createBlock_def
  IsoColorModel_createBlock_def IsoSurfaceModel_createBlock_def ThresholdModel_createBlock_def

lemma createBlock_New: "createBlock r m = Inr nb \<Longrightarrow> \<exists>ct args. nb = New r ct args"
  by (cases "cls m") (auto simp: createBlock_defs split: sum.splits)

lemma new_model_frame:
  "cls (new_model r k a) = k" "core_obj (new_model r k a) = r" "listeners (new_model r k a) = []"
  by (simp_all add: new_model_def)

lemma get_new_model_upd:
  "q \<noteq> p \<Longrightarrow> get (new_model r k (a(p \<mapsto> x))) q = get (new_model r k a) q"
  by (simp add: get_def new_model_def)

lemma createBlock_default_alpha:
  "createBlock r (new_model r k (a(''default_alpha'' \<mapsto> x))) = createBlock r (new_model r k a)"
  by (cases k)
    (simp_all add: createBlock_defs getter_defs new_model_frame get_new_model_upd
      cong: sum.case_cong)

lemma initialize_block:
  "k \<noteq> ComponentModel \<Longrightarrow> k \<noteq> DataModel \<Longrightarrow> k \<noteq> SceneModel \<Longrightarrow>
   initialize c r k a = BlockModel_initialize (new_model r k a)"
  by (cases k) (simp_all add: initialize_def Let_def)

lemma mapM_read_prop:
  "mapM (\<lambda>x. read_prop x f) (map (VModel f) rs) = Inr (map VObj rs)"
  by (induction rs) simp_all

lemma initialize_scene_log:
  "initialize c r SceneModel a = (l, res) \<Longrightarrow>
   \<exists>l'. l = New r Scene [] # l' \<and> (\<forall>x\<in>set l'. is_scale_or_addChild r x)"
proof -
  assume i: "initialize c r SceneModel a = (l, res)"
  obtain l' e where u: "SceneModel_updateChildren c (new_model r SceneModel a) = (l', e)"
    by (cases "SceneModel_updateChildren c (new_model r SceneModel a)")
  from updateChildren_calls [OF u] have "\<forall>x\<in>set l'. is_scale_or_addChild r x"
    by (fastforce simp: new_model_frame)
  moreover from i u have "l = New r Scene [] # l'"
    by (auto simp: initialize_def Let_def SceneModel_initialize_def new_model_frame split: option.splits)
  ultimately show ?thesis by blast
qed

lemma no_data_listener: "''change:data'' \<notin> fst ` set (class_listeners k)"
  by (cases k) (simp_all add: class_listeners_simps)

lemma example_isocolor_init:
  "initialize c 1 IsoColorModel [''parent'' \<mapsto> VModel ''block'' 0, ''input'' \<mapsto> VStr ''u''] =
     ([New 1 IsoColor [VObj 0, VStr ''u'', VNum (Fin 0), VNum (Fin 0)],
       Assign 1 ''defaultColor'' (VStr ''#6395b0'')], Inr example_isocolor)"
  by (simp add: initialize_def Let_def BlockModel_initialize_def createBlock_defs getter_defs
      new_model_def get_def example_isocolor_def IsoColorModel_defaults_def
      EffectModel_defaults_def BlockModel_defaults_def)

lemma example_polymesh_init:
  "initialize c 2 PolyMeshModel Map.empty =
     ([New 2 PolyMesh [VArr [], VArr [], VArr [], VRec [(''environmentMeshes'', VArr [])]],
       Assign 2 ''defaultColor'' (VStr ''#6395b0'')], Inr example_polymesh)"
  by (simp add: initialize_def Let_def BlockModel_initialize_def createBlock_defs getter_defs
      new_model_def get_def example_polymesh_def PolyMeshModel_defaults_def
      BlockModel_defaults_def)

subsection \<open>The view keeps its invariant\<close>

lemma ordered_append:
  "ordered d i (t @ u) =
     (ordered d i t \<and> ordered (d \<or> Displayed \<in> set t) (i \<or> list_ex is_initialize t) u)"
  by (induction t arbitrary: d i) auto

lemma ordered_neutral: "list_all neutral es \<Longrightarrow> ordered d i es"
  by (induction es) (auto simp: neutral_def)

lemma ordered_after: "list_all (\<lambda>e. e \<noteq> Displayed \<and> \<not> is_initialize e) es \<Longrightarrow> ordered d True es"
  by (induction es) auto

lemma not_init_neutral: "list_all neutral es \<Longrightarrow> \<not> list_ex is_initialize es"
  by (induction es) (auto simp: neutral_def)

lemma emit_simps:
  "trace (emit es v) = trace v @ es" "renderer (emit es v) = renderer v"
  "displayed_settled (emit es v) = displayed_settled v" "microtasks (emit es v) = microtasks v"
  "resize_listeners (emit es v) = resize_listeners v"
  "background_listeners (emit es v) = background_listeners v"
  "background_color (emit es v) = background_color v"
  "displayed_reactions (emit es v) = displayed_reactions v"
  "emit es (emit es' v) = emit (es' @ es) v"
  by (simp_all add: emit_def)

lemma inv_emit_neutral: "view_inv v \<Longrightarrow> list_all neutral es \<Longrightarrow> view_inv (emit es v)"
  by (auto simp: view_inv_def emit_simps ordered_append ordered_neutral)

lemma inv_emit_after:
  "view_inv v \<Longrightarrow> list_ex is_initialize (trace v) \<Longrightarrow>
   list_all (\<lambda>e. e \<noteq> Displayed \<and> \<not> is_initialize e) es \<Longrightarrow> view_inv (emit es v)"
  by (auto simp: view_inv_def emit_simps ordered_append ordered_after)

lemma funpow_resize:
  "(SceneView_resize ^^ k) v =
     emit (replicate k (case renderer v of None \<Rightarrow> Thrown TypeError | Some n \<Rightarrow> Renderer_resize n)) v"
proof (induction k)
  case 0
  show ?case by (simp add: emit_def)
next
  case (Suc k)
  then show ?case
    by (simp add: SceneView_resize_def emit_simps replicate_append_same split: option.splits)
qed

lemma funpow_background:
  "(background_listener ^^ k) v =
     emit (replicate k (case renderer v of None \<Rightarrow> Thrown TypeError
                        | Some n \<Rightarrow> Renderer_backgroundColor n (background_color v))) v"
proof (induction k)
  case 0
  show ?case by (simp add: emit_def)
next
  case (Suc k)
  then show ?case
    by (simp add: background_listener_def emit_simps replicate_append_same split: option.splits)
qed

lemma inv_new_view: "view_inv (new_view col)"
  by (simp add: view_inv_def new_view_def)

lemma inv_resolve_displayed: "view_inv v \<Longrightarrow> view_inv (resolve_displayed v)"
  by (auto simp: resolve_displayed_def view_inv_def emit_def ordered_append)

lemma inv_step: "view_inv v \<Longrightarrow> view_inv (step v a)"
proof (cases a)
  case Render
  assume "view_inv v"
  then show ?thesis
    by (auto simp: Render view_inv_def SceneView_render_def displayed_then_def emit_simps emit_def
        ordered_append)
next
  case Display
  assume "view_inv v"
  then show ?thesis
    by (simp add: Display inv_resolve_displayed)
next
  case Job
  assume "view_inv v"
  then show ?thesis
    by (auto simp: Job view_inv_def displayed_callback_def SceneView_initEventListeners_def
        emit_def ordered_append split: option.splits)
next
  case WindowResize
  assume "view_inv v"
  then show ?thesis
    by (auto simp: WindowResize funpow_resize neutral_def list_all_length
        intro!: inv_emit_neutral split: option.splits)
next
  case (PhosphorMessage t)
  assume "view_inv v"
  then have "view_inv (DOMWidgetView_processPhosphorMessage t v)"
    by (simp add: DOMWidgetView_processPhosphorMessage_def inv_resolve_displayed)
  then show ?thesis
    by (auto simp: PhosphorMessage SceneView_processPhosphorMessage_def SceneView_resize_def
        neutral_def Let_def intro!: inv_emit_neutral split: option.splits)
next
  case (ChangeBackground col)
  assume i: "view_inv v"
  then have i': "view_inv (v\<lparr>background_color := col\<rparr>)" by (simp add: view_inv_def)
  show ?thesis
  proof (cases "background_listeners v")
    case 0
    with i' show ?thesis by (simp add: ChangeBackground)
  next
    case (Suc k)
    with i have "list_ex is_initialize (trace (v\<lparr>background_color := col\<rparr>))"
      by (simp add: view_inv_def)
    from inv_emit_after [OF i' this] show ?thesis
      by (auto simp: ChangeBackground funpow_background list_all_length split: option.splits)
  qed
next
  case Remove
  assume "view_inv v"
  then show ?thesis
    by (auto simp: Remove SceneView_remove_def neutral_def intro!: inv_emit_neutral
        split: option.splits)
qed

lemma inv_run: "view_inv v \<Longrightarrow> view_inv (run as v)"
  unfolding run_def by (induction as arbitrary: v) (simp_all add: inv_step)

lemma ordered_initialize_split:
  "ordered False False (xs @ Renderer_initialize n # ys) \<Longrightarrow> Displayed \<in> set xs"
  by (simp add: ordered_append)

lemma ordered_after_split:
  "ordered False False (xs @ e # ys) \<Longrightarrow> after_init e \<Longrightarrow> \<exists>n. Renderer_initialize n \<in> set xs"
proof -
  assume "ordered False False (xs @ e # ys)" and "after_init e"
  then have "list_ex is_initialize xs"
    by (cases e) (auto simp: ordered_append)
  then obtain x where x: "x \<in> set xs" and ix: "is_initialize x" by (auto simp: list_ex_iff)
  from ix obtain n where "x = Renderer_initialize n" by (cases x) simp_all
  with x show ?thesis by blast
qed

lemma step_Displayed:
  "\<not> signals_display a \<Longrightarrow> Displayed \<in> set (trace (step v a)) \<Longrightarrow> Displayed \<in> set (trace v)"
  by (cases a)
    (auto simp: SceneView_render_def displayed_then_def emit_def displayed_callback_def
      SceneView_initEventListeners_def funpow_resize funpow_background
      SceneView_processPhosphorMessage_def DOMWidgetView_processPhosphorMessage_def
      SceneView_resize_def SceneView_remove_def Let_def
      split: option.splits if_splits)

lemma run_Displayed:
  "\<forall>a\<in>set as. \<not> signals_display a \<Longrightarrow> Displayed \<in> set (trace (run as v))
   \<Longrightarrow> Displayed \<in> set (trace v)"
  unfolding run_def
proof (induction as arbitrary: v)
  case Nil
  then show ?case by simp
next
  case (Cons a as)
  from Cons.prems have "Displayed \<in> set (trace (step v a))"
    using Cons.IH [of "step v a"] by simp
  moreover from Cons.prems have "\<not> signals_display a" by simp
  ultimately show ?case by (rule step_Displayed [rotated])
qed

lemma inv2_new_view: "view_inv2 (new_view col)"
  by (simp add: view_inv2_def new_view_def)

lemma inv2_emit:
  "view_inv2 v \<Longrightarrow> \<forall>e\<in>set es. \<forall>n. event_renderer e = Some n \<longrightarrow> n < renderers_made v
   \<Longrightarrow> view_inv2 (emit es v)"
  by (auto simp: view_inv2_def emit_def)

lemma inv2_resolve_displayed: "view_inv2 v \<Longrightarrow> view_inv2 (resolve_displayed v)"
  by (auto simp: resolve_displayed_def view_inv2_def emit_def)

lemma inv2_resize: "view_inv2 v \<Longrightarrow> view_inv2 (SceneView_resize v)"
  by (cases "renderer v") (auto simp: SceneView_resize_def view_inv2_def emit_def)

lemma inv2_step: "view_inv2 v \<Longrightarrow> view_inv2 (step v a)"
proof (cases a)
  case Render
  assume "view_inv2 v"
  then show ?thesis
    unfolding Render step.simps SceneView_render_def displayed_then_def
    by (auto simp: view_inv2_def emit_def less_Suc_eq)
next
  case Display
  assume "view_inv2 v"
  then show ?thesis by (simp add: Display inv2_resolve_displayed)
next
  case Job
  assume i: "view_inv2 v"
  show ?thesis
  proof (cases "microtasks v = 0")
    case True
    with i show ?thesis by (simp add: Job)
  next
    case False
    with i obtain n where n: "renderer v = Some n" and m: "n < renderers_made v"
      by (auto simp: view_inv2_def)
    from i n m False show ?thesis
      by (simp add: Job displayed_callback_def SceneView_initEventListeners_def emit_def
          view_inv2_def)
  qed
next
  case WindowResize
  assume i: "view_inv2 v"
  show ?thesis
  proof (cases "renderer v")
    case None
    with i show ?thesis
      by (auto simp: WindowResize funpow_resize intro!: inv2_emit)
  next
    case (Some n)
    with i have "n < renderers_made v" by (simp add: view_inv2_def)
    with i Some show ?thesis
      by (auto simp: WindowResize funpow_resize intro!: inv2_emit)
  qed
next
  case (PhosphorMessage t)
  assume "view_inv2 v"
  then have "view_inv2 (DOMWidgetView_processPhosphorMessage t v)"
    by (simp add: DOMWidgetView_processPhosphorMessage_def inv2_resolve_displayed)
  then show ?thesis
    by (simp add: PhosphorMessage SceneView_processPhosphorMessage_def Let_def inv2_resize)
next
  case (ChangeBackground col)
  assume i: "view_inv2 v"
  then have i': "view_inv2 (v\<lparr>background_color := col\<rparr>)" by (simp add: view_inv2_def)
  show ?thesis
  proof (cases "renderer v")
    case None
    with i' show ?thesis
      by (auto simp: ChangeBackground funpow_background intro!: inv2_emit)
  next
    case (Some n)
    with i have "n < renderers_made v" by (simp add: view_inv2_def)
    with i' Some show ?thesis
      by (auto simp: ChangeBackground funpow_background intro!: inv2_emit)
  qed
next
  case Remove
  assume i: "view_inv2 v"
  show ?thesis
  proof (cases "renderer v")
    case None
    with i show ?thesis
      by (auto simp: Remove SceneView_remove_def intro!: inv2_emit)
  next
    case (Some n)
    with i have "n < renderers_made v" by (simp add: view_inv2_def)
    with i Some show ?thesis
      by (auto simp: Remove SceneView_remove_def intro!: inv2_emit)
  qed
qed

lemma inv2_run: "view_inv2 v \<Longrightarrow> view_inv2 (run as v)"
  unfolding run_def by (induction as arbitrary: v) (simp_all add: inv2_step)

lemma renderers_made_step:
  "renderers_made (step v a) = renderers_made v + (if a = Render then 1 else 0)"
  by (cases a)
    (auto simp: SceneView_render_def displayed_then_def emit_def displayed_callback_def
      SceneView_initEventListeners_def funpow_resize funpow_background resolve_displayed_def
      SceneView_processPhosphorMessage_def DOMWidgetView_processPhosphorMessage_def
      SceneView_resize_def SceneView_remove_def Let_def split: option.splits)

lemma renderers_made_run:
  "renderers_made (run as v) = renderers_made v + count_list as Render"
  unfolding run_def
  by (induction as arbitrary: v) (simp_all add: renderers_made_step)

lemma run_snoc: "run (as @ [a]) v = step (run as v) a"
  by (simp add: run_def)

lemma job_runs_callback:
  assumes "view_inv2 v" and "0 < microtasks v"
  shows "\<exists>n. renderer v = Some n
           \<and> trace (step v Job) =
               trace v @ [Renderer_initialize n, Renderer_backgroundColor n (background_color v),
                          Window_addEventListener ''resize'', Model_on ''change:background_color'']"
  using assms
  by (auto simp: view_inv2_def displayed_callback_def SceneView_initEventListeners_def emit_def)

section \<open>Claims\<close>

text \<open>
  C1. For a non-empty list of children, each a block model, \<^verbatim>\<open>updateChildren\<close>
  computes one number \<open>s = 1 / Math.max(radii)\<close> and, for every child in order, assigns
  the vector \<open>(s, s, s)\<close> to the block's \<^verbatim>\<open>scale\<close> and then adds the block to the
  scene. When the radii are finite and their maximum is positive, \<open>s\<close> is the
  reciprocal of that maximum. The radii 2, 4 and 1 give 1/4 for every child.
\<close>

theorem updateChildren_uniform_scale:
  assumes "bs \<noteq> []" and "get m ''children'' = VArr (map (VModel ''block'') bs)"
  shows "\<exists>s. SceneModel_updateChildren c m =
            (concat (map (\<lambda>b. [Assign b ''scale'' (VVec3 s s s),
                                Invoke (core_obj m) ''addChild'' [VObj b]]) bs), None)
          \<and> s = one_over (Math_max (map (boundingSphereRadius c) bs))
          \<and> (\<forall>qs. map (boundingSphereRadius c) bs = map Fin qs \<and> 0 < Max (set qs)
                 \<longrightarrow> s = round64 (1 / Max (set qs)))"
proof -
  have "one_over (Math_max (map (boundingSphereRadius c) bs)) = round64 (1 / Max (set qs))"
    if "map (boundingSphereRadius c) bs = map Fin qs" and "0 < Max (set qs)" for qs
  proof -
    from that(1) assms(1) have "qs \<noteq> []" by auto
    with that show ?thesis by (simp add: Math_max_Fin)
  qed
  with updateChildren_blocks [OF assms(2), of c] show ?thesis
    by simp
qed

theorem updateChildren_uniform_scale_witness:
  "SceneModel_updateChildren
     \<lparr>boundingSphereRadius = (\<lambda>r. if r = 1 then Fin 2 else if r = 2 then Fin 4 else Fin 1),
      inputDimension = (\<lambda>r. Fin 0)\<rparr>
     (new_model 0 SceneModel
        [''children'' \<mapsto> VArr [VModel ''block'' 1, VModel ''block'' 2, VModel ''block'' 3]]) =
   ([Assign 1 ''scale'' (VVec3 (Fin (1/4)) (Fin (1/4)) (Fin (1/4))), Invoke 0 ''addChild'' [VObj 1],
     Assign 2 ''scale'' (VVec3 (Fin (1/4)) (Fin (1/4)) (Fin (1/4))), Invoke 0 ''addChild'' [VObj 2],
     Assign 3 ''scale'' (VVec3 (Fin (1/4)) (Fin (1/4)) (Fin (1/4))), Invoke 0 ''addChild'' [VObj 3]],
    None)"
  using updateChildren_uniform_scale [of "[1, 2, 3]"
     "new_model 0 SceneModel
        [''children'' \<mapsto> VArr [VModel ''block'' 1, VModel ''block'' 2, VModel ''block'' 3]]"
     "\<lparr>boundingSphereRadius = (\<lambda>r. if r = 1 then Fin 2 else if r = 2 then Fin 4 else Fin 1),
      inputDimension = (\<lambda>r. Fin 0)\<rparr>"]
  by (simp add: new_model_def get_def Math_max_def max_step_def round64_quarter)

text \<open>
  C5. Whatever the children attribute holds, the calls of \<^verbatim>\<open>updateChildren\<close> are
  assignments of a scale vector and \<^verbatim>\<open>addChild\<close> calls on the model's own scene,
  nothing else: the scene's list after the calls is the old list extended by
  \<^verbatim>\<open>addChild\<close>, once per block reached, and with an appending \<^verbatim>\<open>addChild\<close> the old
  children are a prefix of the new list. For a list of block models the blocks added
  are exactly the current children.
\<close>

theorem updateChildren_only_appends:
  assumes "SceneModel_updateChildren c m = (l, e)"
  shows "(\<forall>x\<in>set l. is_scale_or_addChild (core_obj m) x)
       \<and> (\<exists>added.
             (\<forall>add old. scene_children add (core_obj m) l old = foldl add old added)
           \<and> (\<forall>old. scene_children Scene_addChild (core_obj m) l old = old @ added)
           \<and> (\<forall>bs. get m ''children'' = VArr (map (VModel ''block'') bs)
                   \<longrightarrow> e = None \<and> added = map VObj bs))"
proof -
  from updateChildren_calls [OF assms] have 1: "\<forall>x\<in>set l. is_scale_or_addChild (core_obj m) x"
    by fastforce
  have 2: "\<exists>added.
             (\<forall>add old. scene_children add (core_obj m) l old = foldl add old added)
           \<and> (\<forall>bs. get m ''children'' = VArr (map (VModel ''block'') bs)
                   \<longrightarrow> e = None \<and> added = map VObj bs)"
  proof (cases "js_map (get m ''children'') (\<lambda>child. read_prop child ''block'')")
    case (Inl err)
    with assms have l: "l = []" by (simp add: SceneModel_updateChildren_def)
    have "get m ''children'' \<noteq> VArr (map (VModel ''block'') bs)" for bs
      using Inl by (auto simp: mapM_read_block)
    with l show ?thesis by (intro exI [of _ "[]"]) simp
  next
    case (Inr blocks)
    show ?thesis
    proof (cases "mapM (block_radius c) blocks")
      case (Inl err)
      with Inr assms have l: "l = []" by (simp add: SceneModel_updateChildren_def)
      have "get m ''children'' \<noteq> VArr (map (VModel ''block'') bs)" for bs
        using Inl Inr by (auto simp: mapM_read_block mapM_block_radius)
      with l show ?thesis by (intro exI [of _ "[]"]) simp
    next
      case (Inr radii)
      with \<open>js_map _ _ = Inr blocks\<close> assms obtain sc where ab: "add_blocks (core_obj m) sc blocks = (l, e)"
        by (auto simp: SceneModel_updateChildren_def Let_def)
      from scene_children_add_blocks [OF ab] obtain added where
        a: "\<forall>add old. scene_children add (core_obj m) l old = foldl add old added"
           "\<forall>bs. blocks = map VObj bs \<longrightarrow> added = blocks \<and> e = None" by blast
      have "e = None \<and> added = map VObj bs" if "get m ''children'' = VArr (map (VModel ''block'') bs)" for bs
      proof -
        from that \<open>js_map _ _ = Inr blocks\<close> have "blocks = map VObj bs"
          by (simp add: mapM_read_block)
        with a(2) show ?thesis by simp
      qed
      with a(1) show ?thesis by blast
    qed
  qed
  then obtain added where
    a: "\<forall>add old. scene_children add (core_obj m) l old = foldl add old added"
       "\<forall>bs. get m ''children'' = VArr (map (VModel ''block'') bs) \<longrightarrow> e = None \<and> added = map VObj bs"
    by blast
  from a(1) have "\<forall>old. scene_children Scene_addChild (core_obj m) l old = old @ added"
    by (simp add: foldl_Scene_addChild)
  with 1 a show ?thesis by blast
qed

theorem updateChildren_only_appends_witness:
  "scene_children Scene_addChild 0
     (fst (SceneModel_updateChildren
        \<lparr>boundingSphereRadius = (\<lambda>r. Fin 2), inputDimension = (\<lambda>r. Fin 0)\<rparr>
        (new_model 0 SceneModel [''children'' \<mapsto> VArr [VModel ''block'' 3]])))
     [VObj 1, VObj 2] = [VObj 1, VObj 2, VObj 3]"
  using updateChildren_only_appends [of
      "\<lparr>boundingSphereRadius = (\<lambda>r. Fin 2), inputDimension = (\<lambda>r. Fin 0)\<rparr>"
      "new_model 0 SceneModel [''children'' \<mapsto> VArr [VModel ''block'' 3]]"
      "fst (SceneModel_updateChildren
        \<lparr>boundingSphereRadius = (\<lambda>r. Fin 2), inputDimension = (\<lambda>r. Fin 0)\<rparr>
        (new_model 0 SceneModel [''children'' \<mapsto> VArr [VModel ''block'' 3]]))"
      "snd (SceneModel_updateChildren
        \<lparr>boundingSphereRadius = (\<lambda>r. Fin 2), inputDimension = (\<lambda>r. Fin 0)\<rparr>
        (new_model 0 SceneModel [''children'' \<mapsto> VArr [VModel ''block'' 3]]))"]
  by (simp add: new_model_def get_def SceneModel_updateChildren_def Math_max_def max_step_def
      Scene_addChild_def)

text \<open>
  C2. \<^verbatim>\<open>updateInput\<close> calls \<^verbatim>\<open>setInput\<close> exactly when \<^verbatim>\<open>inputDimension != 0\<close>.
  While the effect is unbound (dimension 0) it makes no call at all into the core, so
  nothing of the effect changes and nothing is thrown; this holds for the listener and
  for a change of the \<^verbatim>\<open>input\<close> attribute of an initialized IsoColor, IsoSurface or
  Threshold model. With a nonzero dimension the one call is \<^verbatim>\<open>setInput(this.input)\<close>.
\<close>

theorem updateInput_unbound_noop:
  "(EffectModel_updateInput c m = [] \<longleftrightarrow> \<not> neq_zero (inputDimension c (core_obj m)))
   \<and> (inputDimension c (core_obj m) = Fin 0 \<longrightarrow>
        EffectModel_updateInput c m = [] \<and> run_handler c UpdateInput m = ([], None))
   \<and> (neq_zero (inputDimension c (core_obj m)) \<longrightarrow>
        EffectModel_updateInput c m = [Invoke (core_obj m) ''setInput'' [input m]])
   \<and> (\<forall>c0 r k a l v.
         initialize c0 r k a = (l, Inr m)
         \<and> (k = IsoColorModel \<or> k = IsoSurfaceModel \<or> k = ThresholdModel)
         \<and> inputDimension c r = Fin 0
         \<longrightarrow> set_attr c ''input'' v m = (m\<lparr>attrs := (attrs m)(''input'' \<mapsto> v)\<rparr>, [], None))"
proof -
  have "set_attr c ''input'' v m = (m\<lparr>attrs := (attrs m)(''input'' \<mapsto> v)\<rparr>, [], None)"
    if i: "initialize c0 r k a = (l, Inr m)"
      and k: "k = IsoColorModel \<or> k = IsoSurfaceModel \<or> k = ThresholdModel"
      and d: "inputDimension c r = Fin 0" for c0 r k a l v
  proof -
    from initialized [OF i] have r: "core_obj m = r" and ls: "listeners m = class_listeners k"
      by simp_all
    from k d r show ?thesis
      by (auto simp: set_attr_listeners [OF ls] class_listeners_simps EffectModel_updateInput_def)
  qed
  then show ?thesis
    by (auto simp: EffectModel_updateInput_def)
qed

theorem updateInput_unbound_noop_witness:
  "set_attr example_core ''input'' (VStr ''v'') example_isocolor =
     (example_isocolor\<lparr>attrs := (attrs example_isocolor)(''input'' \<mapsto> VStr ''v'')\<rparr>, [], None)"
  by (rule updateInput_unbound_noop [of example_core example_isocolor, THEN conjunct2,
        THEN conjunct2, THEN conjunct2, rule_format, where k = IsoColorModel])
    (intro conjI, rule example_isocolor_init, simp, simp add: example_core_def)

text \<open>
  C3, as amended. On an initialized model a change of \<^verbatim>\<open>vertices\<close> (mesh models),
  \<^verbatim>\<open>default_color\<close>, \<^verbatim>\<open>default_alpha\<close> (all block models), \<^verbatim>\<open>min\<close>,
  \<^verbatim>\<open>max\<close> (IsoColor, Threshold) and \<^verbatim>\<open>value\<close> (IsoSurface) runs a registered
  callback that assigns the new value to the matching property of the core block; a
  change of \<^verbatim>\<open>input\<close> forwards the (wrapped) new value through \<^verbatim>\<open>setInput\<close>
  while the effect is bound; a change of \<^verbatim>\<open>children\<close> runs \<^verbatim>\<open>updateChildren\<close> on
  the new list. No callback is registered for \<^verbatim>\<open>data\<close>: changing it makes no call
  into the core.
\<close>

theorem change_callbacks_registered:
  assumes "initialize c0 r k a = (l, Inr m)"
  shows "(k = PolyMeshModel \<or> k = TetraMeshModel \<longrightarrow>
            snd (set_attr c ''vertices'' v m) = ([Assign r ''vertices'' v], None))
       \<and> (k \<noteq> ComponentModel \<and> k \<noteq> DataModel \<and> k \<noteq> SceneModel \<longrightarrow>
            snd (set_attr c ''default_color'' v m) = ([Assign r ''defaultColor'' v], None)
          \<and> snd (set_attr c ''default_alpha'' v m) = ([Assign r ''defaultAlpha'' v], None))
       \<and> (k = IsoColorModel \<or> k = ThresholdModel \<longrightarrow>
            snd (set_attr c ''min'' v m) = ([Assign r ''min'' v], None)
          \<and> snd (set_attr c ''max'' v m) = ([Assign r ''max'' v], None))
       \<and> (k = IsoSurfaceModel \<longrightarrow>
            snd (set_attr c ''value'' v m) = ([Assign r ''value'' v], None))
       \<and> (k = IsoColorModel \<or> k = IsoSurfaceModel \<or> k = ThresholdModel \<longrightarrow>
            snd (set_attr c ''input'' v m) =
              (if neq_zero (inputDimension c r)
               then [Invoke r ''setInput'' [if is_string v then v else VArr [v]]] else [], None))
       \<and> (k = SceneModel \<longrightarrow>
            snd (set_attr c ''children'' v m) =
              SceneModel_updateChildren c (m\<lparr>attrs := (attrs m)(''children'' \<mapsto> v)\<rparr>))
       \<and> ''change:data'' \<notin> fst ` set (listeners m)
       \<and> snd (set_attr c ''data'' v m) = ([], None)"
proof -
  from initialized [OF assms] have r: "core_obj m = r" and ls: "listeners m = class_listeners k"
    and k: "cls m = k" by simp_all
  note ev = set_attr_listeners [OF ls] class_listeners_simps get_upd getter_defs
    EffectModel_updateInput_def Let_def
  have 1: "k = PolyMeshModel \<or> k = TetraMeshModel \<longrightarrow>
            snd (set_attr c ''vertices'' v m) = ([Assign r ''vertices'' v], None)"
    using r by (auto simp: ev)
  have 2: "k \<noteq> ComponentModel \<and> k \<noteq> DataModel \<and> k \<noteq> SceneModel \<longrightarrow>
            snd (set_attr c ''default_color'' v m) = ([Assign r ''defaultColor'' v], None)
          \<and> snd (set_attr c ''default_alpha'' v m) = ([Assign r ''defaultAlpha'' v], None)"
    using r by (cases k) (simp_all add: ev)
  have 3: "k = IsoColorModel \<or> k = ThresholdModel \<longrightarrow>
            snd (set_attr c ''min'' v m) = ([Assign r ''min'' v], None)
          \<and> snd (set_attr c ''max'' v m) = ([Assign r ''max'' v], None)"
    using r by (auto simp: ev)
  have 4: "k = IsoSurfaceModel \<longrightarrow>
            snd (set_attr c ''value'' v m) = ([Assign r ''value'' v], None)"
    using r by (auto simp: ev)
  have 5: "k = IsoColorModel \<or> k = IsoSurfaceModel \<or> k = ThresholdModel \<longrightarrow>
            snd (set_attr c ''input'' v m) =
              (if neq_zero (inputDimension c r)
               then [Invoke r ''setInput'' [if is_string v then v else VArr [v]]] else [], None)"
    using r k by (auto simp: ev)
  have 6: "k = SceneModel \<longrightarrow>
            snd (set_attr c ''children'' v m) =
              SceneModel_updateChildren c (m\<lparr>attrs := (attrs m)(''children'' \<mapsto> v)\<rparr>)"
    by (auto simp: ev split: prod.splits option.splits)
  have 7: "''change:data'' \<notin> fst ` set (listeners m)"
    by (simp only: ls no_data_listener not_False_eq_True)
  have 8: "snd (set_attr c ''data'' v m) = ([], None)"
    by (cases k) (simp_all add: ev)
  from 1 2 3 4 5 6 7 8 show ?thesis by blast
qed

theorem change_callbacks_registered_witness:
  "snd (set_attr example_core ''vertices'' (VArr [VNum (Fin 1)]) example_polymesh) =
     ([Assign 2 ''vertices'' (VArr [VNum (Fin 1)])], None)
   \<and> snd (set_attr example_core ''data'' (VArr [VNum (Fin 1)]) example_polymesh) = ([], None)"
  using change_callbacks_registered [where c = example_core and v = "VArr [VNum (Fin 1)]",
      OF example_polymesh_init]
  by simp

text \<open>
  C3, as stated, fails: of the properties it names, \<^verbatim>\<open>data\<close> has no change callback
  in any class. On the PolyMesh example a change of \<^verbatim>\<open>data\<close> stores the attribute
  and calls nothing.
\<close>

theorem data_change_has_no_callback:
  "initialize example_core 2 PolyMeshModel Map.empty =
     ([New 2 PolyMesh [VArr [], VArr [], VArr [], VRec [(''environmentMeshes'', VArr [])]],
       Assign 2 ''defaultColor'' (VStr ''#6395b0'')], Inr example_polymesh)
   \<and> set_attr example_core ''data'' (VArr [VModel ''data'' 7]) example_polymesh =
       (example_polymesh\<lparr>attrs := (attrs example_polymesh)(''data'' \<mapsto> VArr [VModel ''data'' 7])\<rparr>,
        [], None)
   \<and> \<not> (\<forall>p\<in>set [''vertices'', ''data'', ''default_color'', ''default_alpha'', ''min'', ''max'',
                 ''value'', ''input'', ''children''].
        \<exists>c r k a l m. initialize c r k a = (l, Inr m)
                     \<and> ''change:'' @ p \<in> fst ` set (listeners m))"
proof -
  have 1: "initialize example_core 2 PolyMeshModel Map.empty =
     ([New 2 PolyMesh [VArr [], VArr [], VArr [], VRec [(''environmentMeshes'', VArr [])]],
       Assign 2 ''defaultColor'' (VStr ''#6395b0'')], Inr example_polymesh)
   \<and> set_attr example_core ''data'' (VArr [VModel ''data'' 7]) example_polymesh =
       (example_polymesh\<lparr>attrs := (attrs example_polymesh)(''data'' \<mapsto> VArr [VModel ''data'' 7])\<rparr>,
        [], None)"
    by (simp add: example_polymesh_init example_polymesh_def set_attr_def trigger_def
        initEventListeners_defs new_model_def)
  have 2: "\<not> (\<forall>p\<in>set [''vertices'', ''data'', ''default_color'', ''default_alpha'', ''min'', ''max'',
                 ''value'', ''input'', ''children''].
        \<exists>c r k a l m. initialize c r k a = (l, Inr m)
                     \<and> ''change:'' @ p \<in> fst ` set (listeners m))"
  proof
    assume a: "\<forall>p\<in>set [''vertices'', ''data'', ''default_color'', ''default_alpha'', ''min'', ''max'',
                   ''value'', ''input'', ''children''].
          \<exists>c r k a l m. initialize c r k a = (l, Inr m)
                       \<and> ''change:'' @ p \<in> fst ` set (listeners m)"
    have "''data'' \<in> set [''vertices'', ''data'', ''default_color'', ''default_alpha'', ''min'',
                   ''max'', ''value'', ''input'', ''children'']" by simp
    from bspec [OF a this] obtain c r k a l m where i: "initialize c r k a = (l, Inr m)"
      and d: "''change:'' @ ''data'' \<in> fst ` set (listeners m)" by blast
    from d initialized(4) [OF i] no_data_listener [of k] show False by simp
  qed
  from 1 2 show ?thesis by (intro conjI) simp_all
qed

text \<open>
  C4. On an initialized IsoColor or Threshold model a change of \<^verbatim>\<open>min\<close> (of
  \<^verbatim>\<open>max\<close>) makes exactly one call into the core, the assignment of the new value to
  the block's \<^verbatim>\<open>min\<close> (\<^verbatim>\<open>max\<close>); in particular no \<^verbatim>\<open>setInput\<close>, whatever
  the input dimension is.
\<close>

theorem min_max_change_only_assigns:
  assumes "initialize c0 r k a = (l, Inr m)" and "k = IsoColorModel \<or> k = ThresholdModel"
  shows "set_attr c ''min'' v m = (m\<lparr>attrs := (attrs m)(''min'' \<mapsto> v)\<rparr>, [Assign r ''min'' v], None)
       \<and> set_attr c ''max'' v m = (m\<lparr>attrs := (attrs m)(''max'' \<mapsto> v)\<rparr>, [Assign r ''max'' v], None)
       \<and> \<not> list_ex is_setInput (fst (snd (set_attr c ''min'' v m)))
       \<and> \<not> list_ex is_setInput (fst (snd (set_attr c ''max'' v m)))"
proof -
  from initialized [OF assms(1)] have r: "core_obj m = r" and ls: "listeners m = class_listeners k"
    by simp_all
  from assms(2) r show ?thesis
    by (auto simp: set_attr_listeners [OF ls] class_listeners_simps get_upd)
qed

theorem min_max_change_only_assigns_witness:
  "set_attr example_core ''min'' (VNum (Fin 5)) example_isocolor =
     (example_isocolor\<lparr>attrs := (attrs example_isocolor)(''min'' \<mapsto> VNum (Fin 5))\<rparr>,
      [Assign 1 ''min'' (VNum (Fin 5))], None)
   \<and> set_attr example_core ''max'' (VNum (Fin 5)) example_isocolor =
     (example_isocolor\<lparr>attrs := (attrs example_isocolor)(''max'' \<mapsto> VNum (Fin 5))\<rparr>,
      [Assign 1 ''max'' (VNum (Fin 5))], None)"
  using min_max_change_only_assigns [where c = example_core and v = "VNum (Fin 5)",
      OF example_isocolor_init]
  by simp

text \<open>
  C6. For a buffer of whole 4-byte elements both deserializers return a typed array
  of the kind their name says, on the very buffer \<^verbatim>\<open>data.data.buffer\<close>, from offset 0
  and over all of it: whatever the buffer holds later, the view reads those bytes. No
  buffer is made. The tables route \<^verbatim>\<open>array\<close> and \<^verbatim>\<open>vertices\<close> to the Float32
  deserializer, \<^verbatim>\<open>triangle_indices\<close> and \<^verbatim>\<open>tetrahedron_indices\<close> to the Uint32
  one. (A byte length that is not a multiple of 4 is no array of such elements; the
  typed-array constructor then throws a RangeError.)
\<close>

theorem deserialize_views_buffer:
  "(ab_byteLength (dv_buffer (data d)) mod 4 = 0 \<longrightarrow>
      deserialize_float32array d manager =
        Inr \<lparr>ta_kind = Float32, ta_buffer = ab_id (dv_buffer (data d)), ta_byteOffset = 0,
             ta_length = ab_byteLength (dv_buffer (data d)) div 4\<rparr>
    \<and> deserialize_uint32array d manager =
        Inr \<lparr>ta_kind = Uint32, ta_buffer = ab_id (dv_buffer (data d)), ta_byteOffset = 0,
             ta_length = ab_byteLength (dv_buffer (data d)) div 4\<rparr>
    \<and> (\<forall>mem ta.
          (deserialize_float32array d manager = Inr ta \<or> deserialize_uint32array d manager = Inr ta)
          \<and> length (mem (ab_id (dv_buffer (data d)))) = ab_byteLength (dv_buffer (data d))
          \<longrightarrow> ta_bytes mem ta = mem (ab_id (dv_buffer (data d)))))
   \<and> (ab_byteLength (dv_buffer (data d)) mod 4 \<noteq> 0 \<longrightarrow>
        deserialize_float32array d manager = Inl RangeError
      \<and> deserialize_uint32array d manager = Inl RangeError)
   \<and> run_deserializer Deserialize_float32array d manager = deserialize_float32array d manager
   \<and> run_deserializer Deserialize_uint32array d manager = deserialize_uint32array d manager
   \<and> serializers ComponentModel base ''array'' = Some Deserialize_float32array
   \<and> (k \<noteq> ComponentModel \<and> k \<noteq> DataModel \<and> k \<noteq> SceneModel \<longrightarrow>
        serializers k base ''vertices'' = Some Deserialize_float32array)
   \<and> serializers PolyMeshModel base ''triangle_indices'' = Some Deserialize_uint32array
   \<and> serializers TetraMeshModel base ''triangle_indices'' = Some Deserialize_uint32array
   \<and> serializers TetraMeshModel base ''tetrahedron_indices'' = Some Deserialize_uint32array"
proof -
  have v: "k \<noteq> ComponentModel \<and> k \<noteq> DataModel \<and> k \<noteq> SceneModel \<longrightarrow>
        serializers k base ''vertices'' = Some Deserialize_float32array"
    by (cases k)
      (simp_all add: BlockModel_serializers_def PolyMeshModel_serializers_def
        TetraMeshModel_serializers_def EffectModel_serializers_def)
  have t: "serializers ComponentModel base ''array'' = Some Deserialize_float32array"
    "serializers PolyMeshModel base ''triangle_indices'' = Some Deserialize_uint32array"
    "serializers TetraMeshModel base ''triangle_indices'' = Some Deserialize_uint32array"
    "serializers TetraMeshModel base ''tetrahedron_indices'' = Some Deserialize_uint32array"
    by (simp_all add: ComponentModel_serializers_def PolyMeshModel_serializers_def
        TetraMeshModel_serializers_def)
  have b: "ta_bytes mem ta = mem (ab_id (dv_buffer (data d)))"
    if "ab_byteLength (dv_buffer (data d)) mod 4 = 0"
      and "deserialize_float32array d manager = Inr ta \<or> deserialize_uint32array d manager = Inr ta"
      and "length (mem (ab_id (dv_buffer (data d)))) = ab_byteLength (dv_buffer (data d))"
    for mem ta
  proof -
    from that(1) have "4 * (ab_byteLength (dv_buffer (data d)) div 4) = ab_byteLength (dv_buffer (data d))"
      by presburger
    with that show ?thesis
      by (auto simp: deserialize_float32array_def deserialize_uint32array_def new_TypedArray_def
          ta_bytes_def)
  qed
  have f: "ab_byteLength (dv_buffer (data d)) mod 4 = 0 \<longrightarrow>
      deserialize_float32array d manager =
        Inr \<lparr>ta_kind = Float32, ta_buffer = ab_id (dv_buffer (data d)), ta_byteOffset = 0,
             ta_length = ab_byteLength (dv_buffer (data d)) div 4\<rparr>
    \<and> deserialize_uint32array d manager =
        Inr \<lparr>ta_kind = Uint32, ta_buffer = ab_id (dv_buffer (data d)), ta_byteOffset = 0,
             ta_length = ab_byteLength (dv_buffer (data d)) div 4\<rparr>"
    and e: "ab_byteLength (dv_buffer (data d)) mod 4 \<noteq> 0 \<longrightarrow>
        deserialize_float32array d manager = Inl RangeError
      \<and> deserialize_uint32array d manager = Inl RangeError"
    by (simp_all add: deserialize_float32array_def deserialize_uint32array_def new_TypedArray_def)
  have r: "run_deserializer Deserialize_float32array d manager = deserialize_float32array d manager"
    "run_deserializer Deserialize_uint32array d manager = deserialize_uint32array d manager"
    by simp_all
  from b f have c: "ab_byteLength (dv_buffer (data d)) mod 4 = 0 \<longrightarrow>
      deserialize_float32array d manager =
        Inr \<lparr>ta_kind = Float32, ta_buffer = ab_id (dv_buffer (data d)), ta_byteOffset = 0,
             ta_length = ab_byteLength (dv_buffer (data d)) div 4\<rparr>
    \<and> deserialize_uint32array d manager =
        Inr \<lparr>ta_kind = Uint32, ta_buffer = ab_id (dv_buffer (data d)), ta_byteOffset = 0,
             ta_length = ab_byteLength (dv_buffer (data d)) div 4\<rparr>
    \<and> (\<forall>mem ta.
          (deserialize_float32array d manager = Inr ta \<or> deserialize_uint32array d manager = Inr ta)
          \<and> length (mem (ab_id (dv_buffer (data d)))) = ab_byteLength (dv_buffer (data d))
          \<longrightarrow> ta_bytes mem ta = mem (ab_id (dv_buffer (data d))))"
    by (intro impI conjI allI) auto
  from c e r t v show ?thesis by (intro conjI) assumption+
qed

theorem deserialize_views_buffer_witness:
  "deserialize_float32array
     \<lparr>data = \<lparr>dv_buffer = \<lparr>ab_id = 7, ab_byteLength = 12\<rparr>, dv_byteOffset = 0, dv_byteLength = 12\<rparr>\<rparr> ()
   = Inr \<lparr>ta_kind = Float32, ta_buffer = 7, ta_byteOffset = 0, ta_length = 3\<rparr>
   \<and> deserialize_uint32array
     \<lparr>data = \<lparr>dv_buffer = \<lparr>ab_id = 7, ab_byteLength = 12\<rparr>, dv_byteOffset = 0, dv_byteLength = 12\<rparr>\<rparr> ()
   = Inr \<lparr>ta_kind = Uint32, ta_buffer = 7, ta_byteOffset = 0, ta_length = 3\<rparr>
   \<and> serializers TetraMeshModel Map.empty ''vertices'' = Some Deserialize_float32array"
  using deserialize_views_buffer [where
     d = "\<lparr>data = \<lparr>dv_buffer = \<lparr>ab_id = 7, ab_byteLength = 12\<rparr>, dv_byteOffset = 0, dv_byteLength = 12\<rparr>\<rparr>"
     and manager = "()" and k = TetraMeshModel and base = Map.empty]
  by simp

text \<open>
  C7. A TetraMesh is constructed only by the initialization of a TetraMeshModel, with
  the model's \<^verbatim>\<open>vertices\<close>, \<^verbatim>\<open>triangle_indices\<close> and \<^verbatim>\<open>tetrahedron_indices\<close>
  attributes as its first three arguments, then the data and the environment meshes;
  with well-formed \<^verbatim>\<open>data\<close> and \<^verbatim>\<open>environment_meshes\<close> the construction happens.
\<close>

theorem TetraMesh_constructed_with_both:
  "(\<forall>l res r' args.
      initialize c r k a = (l, res) \<and> New r' TetraMesh args \<in> set l \<longrightarrow>
        k = TetraMeshModel \<and> r' = r
        \<and> (\<exists>d env. args = [get (new_model r k a) ''vertices'',
                            get (new_model r k a) ''triangle_indices'',
                            get (new_model r k a) ''tetrahedron_indices'', d, env]))
   \<and> (\<forall>ds es.
        k = TetraMeshModel
        \<and> get (new_model r k a) ''data'' = VArr (map (VModel ''data'') ds)
        \<and> get (new_model r k a) ''environment_meshes'' = VArr (map (VModel ''obj'') es) \<longrightarrow>
        fst (initialize c r k a) =
          [New r TetraMesh
             [get (new_model r k a) ''vertices'', get (new_model r k a) ''triangle_indices'',
              get (new_model r k a) ''tetrahedron_indices'', VArr (map VObj ds),
              VRec [(''environmentMeshes'', VArr (map VObj es))]],
           Assign r ''defaultColor'' (get (new_model r k a) ''default_color'')])"
proof -
  have 1: "k = TetraMeshModel \<and> r' = r
        \<and> (\<exists>d env. args = [get (new_model r k a) ''vertices'',
                            get (new_model r k a) ''triangle_indices'',
                            get (new_model r k a) ''tetrahedron_indices'', d, env])"
    if i: "initialize c r k a = (l, res)" and n: "New r' TetraMesh args \<in> set l" for l res r' args
  proof (cases k)
    case ComponentModel
    with i n show ?thesis
      by (auto simp: initialize_def Let_def ComponentModel_initialize_def new_model_frame)
  next
    case DataModel
    with i n show ?thesis
      by (auto simp: initialize_def Let_def DataModel_initialize_def new_model_frame split: sum.splits)
  next
    case SceneModel
    with i initialize_scene_log [of c r a l res] obtain l' where
      l: "l = New r Scene [] # l'" and a: "\<forall>x\<in>set l'. is_scale_or_addChild r x" by blast
    from n l have "New r' TetraMesh args \<in> set l'" by simp
    with a have "is_scale_or_addChild r (New r' TetraMesh args)" by blast
    then show ?thesis by simp
  next
    case PolyMeshModel
    with i n show ?thesis
      by (auto simp: initialize_def Let_def BlockModel_initialize_def createBlock_defs new_model_frame
          split: sum.splits)
  next
    case TetraMeshModel
    with i n show ?thesis
      by (auto simp: initialize_def Let_def BlockModel_initialize_def createBlock_defs new_model_frame
          getter_defs split: sum.splits)
  next
    case IsoColorModel
    with i n show ?thesis
      by (auto simp: initialize_def Let_def BlockModel_initialize_def createBlock_defs new_model_frame
          split: sum.splits)
  next
    case IsoSurfaceModel
    with i n show ?thesis
      by (auto simp: initialize_def Let_def BlockModel_initialize_def createBlock_defs new_model_frame
          split: sum.splits)
  next
    case ThresholdModel
    with i n show ?thesis
      by (auto simp: initialize_def Let_def BlockModel_initialize_def createBlock_defs new_model_frame
          split: sum.splits)
  qed
  have 2: "fst (initialize c r k a) =
          [New r TetraMesh
             [get (new_model r k a) ''vertices'', get (new_model r k a) ''triangle_indices'',
              get (new_model r k a) ''tetrahedron_indices'', VArr (map VObj ds),
              VRec [(''environmentMeshes'', VArr (map VObj es))]],
           Assign r ''defaultColor'' (get (new_model r k a) ''default_color'')]"
    if "k = TetraMeshModel"
      and "get (new_model r k a) ''data'' = VArr (map (VModel ''data'') ds)"
      and "get (new_model r k a) ''environment_meshes'' = VArr (map (VModel ''obj'') es)"
    for ds es
    using that
    by (simp add: initialize_def Let_def BlockModel_initialize_def createBlock_defs new_model_frame
        getter_defs mapM_read_prop)
  from 1 2 show ?thesis by blast
qed

theorem TetraMesh_constructed_with_both_witness:
  "fst (initialize example_core 3 TetraMeshModel
     [''triangle_indices'' \<mapsto> VArr [VNum (Fin 0), VNum (Fin 1), VNum (Fin 2)],
      ''tetrahedron_indices'' \<mapsto> VArr [VNum (Fin 0), VNum (Fin 1), VNum (Fin 2), VNum (Fin 3)],
      ''data'' \<mapsto> VArr [VModel ''data'' 5]]) =
   [New 3 TetraMesh
      [VArr [], VArr [VNum (Fin 0), VNum (Fin 1), VNum (Fin 2)],
       VArr [VNum (Fin 0), VNum (Fin 1), VNum (Fin 2), VNum (Fin 3)], VArr [VObj 5],
       VRec [(''environmentMeshes'', VArr [])]],
    Assign 3 ''defaultColor'' (VStr ''#6395b0'')]"
proof -
  note t = TetraMesh_constructed_with_both [of example_core 3 TetraMeshModel
     "[''triangle_indices'' \<mapsto> VArr [VNum (Fin 0), VNum (Fin 1), VNum (Fin 2)],
      ''tetrahedron_indices'' \<mapsto> VArr [VNum (Fin 0), VNum (Fin 1), VNum (Fin 2), VNum (Fin 3)],
      ''data'' \<mapsto> VArr [VModel ''data'' 5]]", THEN conjunct2, rule_format, of "[5]" "[]"]
  from t show ?thesis
    by (simp add: new_model_def get_def TetraMeshModel_defaults_def PolyMeshModel_defaults_def
        BlockModel_defaults_def)
qed

text \<open>
  C8. After any sequence of actions on a new view, every \<^verbatim>\<open>renderer.initialize()\<close>
  in the trace comes after \<^verbatim>\<open>displayed\<close> was resolved, and every assignment of the
  background colour and every installation of a listener comes after an
  initialization (of the very renderer that receives the colour, when \<^verbatim>\<open>render\<close> is
  called once, as the widget library does). Without a display signal (the host
  triggering \<^verbatim>\<open>displayed\<close>, or an \<^verbatim>\<open>after-attach\<close> message) nothing is ever
  initialized. A queued job is the callback of \<^verbatim>\<open>render\<close>: it initializes the
  renderer, then sets its background colour, then installs the two listeners.
\<close>

theorem renderer_initialized_after_displayed:
  "(\<forall>xs n ys. trace (run as (new_view col)) = xs @ Renderer_initialize n # ys
       \<longrightarrow> Displayed \<in> set xs)
   \<and> (\<forall>xs e ys. trace (run as (new_view col)) = xs @ e # ys \<and> after_init e
       \<longrightarrow> (\<exists>n. Renderer_initialize n \<in> set xs))
   \<and> (count_list as Render \<le> 1 \<longrightarrow>
        (\<forall>xs n c ys. trace (run as (new_view col)) = xs @ Renderer_backgroundColor n c # ys
           \<longrightarrow> Renderer_initialize n \<in> set xs))
   \<and> ((\<forall>a\<in>set as. \<not> signals_display a) \<longrightarrow>
        (\<forall>n. Renderer_initialize n \<notin> set (trace (run as (new_view col)))))
   \<and> (0 < microtasks (run as (new_view col)) \<longrightarrow>
        (\<exists>n. renderer (run as (new_view col)) = Some n
           \<and> trace (run (as @ [Job]) (new_view col)) =
               trace (run as (new_view col)) @
                 [Renderer_initialize n,
                  Renderer_backgroundColor n (background_color (run as (new_view col))),
                  Window_addEventListener ''resize'', Model_on ''change:background_color'']))
   \<and> trace (run [Render, Display, Job] (new_view col)) =
       [ClassList_add ''odysis-scene'', New_Renderer 0, Displayed, Renderer_initialize 0,
        Renderer_backgroundColor 0 col, Window_addEventListener ''resize'',
        Model_on ''change:background_color'']
   \<and> trace (run [Render, PhosphorMessage ''after-attach'', Job] (new_view col)) =
       [ClassList_add ''odysis-scene'', New_Renderer 0, Displayed, Renderer_initialize 0,
        Renderer_backgroundColor 0 col, Window_addEventListener ''resize'',
        Model_on ''change:background_color'']"
proof -
  let ?v = "run as (new_view col)"
  from inv_run [OF inv_new_view] have o: "ordered False False (trace ?v)"
    by (simp add: view_inv_def)
  have i2: "view_inv2 ?v" by (rule inv2_run [OF inv2_new_view])
  have 1: "\<forall>xs n ys. trace ?v = xs @ Renderer_initialize n # ys \<longrightarrow> Displayed \<in> set xs"
    using o ordered_initialize_split by metis
  have 2: "\<forall>xs e ys. trace ?v = xs @ e # ys \<and> after_init e
       \<longrightarrow> (\<exists>n. Renderer_initialize n \<in> set xs)"
    using o ordered_after_split by metis
  have 3: "\<forall>xs n c ys. trace ?v = xs @ Renderer_backgroundColor n c # ys
           \<longrightarrow> Renderer_initialize n \<in> set xs" if r: "count_list as Render \<le> 1"
  proof (intro allI impI)
    fix xs n c ys assume t: "trace ?v = xs @ Renderer_backgroundColor n c # ys"
    from r have m: "renderers_made ?v \<le> 1"
      by (simp add: renderers_made_run new_view_def)
    from 2 t obtain k where k: "Renderer_initialize k \<in> set xs" by fastforce
    from i2 have b: "\<forall>e\<in>set (trace ?v). \<forall>j. event_renderer e = Some j \<longrightarrow> j < renderers_made ?v"
      by (simp add: view_inv2_def)
    from t have "Renderer_backgroundColor n c \<in> set (trace ?v)" by simp
    from bspec [OF b this] m have "n = 0" by simp
    moreover from t k have "Renderer_initialize k \<in> set (trace ?v)" by simp
    from bspec [OF b this] m have "k = 0" by simp
    ultimately show "Renderer_initialize n \<in> set xs" using k by simp
  qed
  have 4: "\<forall>n. Renderer_initialize n \<notin> set (trace ?v)" if d: "\<forall>a\<in>set as. \<not> signals_display a"
  proof (intro allI notI)
    fix n assume "Renderer_initialize n \<in> set (trace ?v)"
    then obtain xs ys where s: "trace ?v = xs @ Renderer_initialize n # ys"
      by (auto simp: in_set_conv_decomp)
    with 1 have "Displayed \<in> set xs" by blast
    with s have "Displayed \<in> set (trace ?v)" by simp
    from run_Displayed [OF d this] show False by (simp add: new_view_def)
  qed
  have 5: "\<exists>n. renderer ?v = Some n
           \<and> trace (run (as @ [Job]) (new_view col)) =
               trace ?v @ [Renderer_initialize n, Renderer_backgroundColor n (background_color ?v),
                  Window_addEventListener ''resize'', Model_on ''change:background_color'']"
    if "0 < microtasks ?v"
    using job_runs_callback [OF i2 that] by (simp only: run_snoc)
  have 6: "trace (run [Render, Display, Job] (new_view col)) =
       [ClassList_add ''odysis-scene'', New_Renderer 0, Displayed, Renderer_initialize 0,
        Renderer_backgroundColor 0 col, Window_addEventListener ''resize'',
        Model_on ''change:background_color'']"
    by (simp add: run_def new_view_def SceneView_render_def displayed_then_def emit_def
        displayed_callback_def SceneView_initEventListeners_def resolve_displayed_def)
  have 7: "trace (run [Render, PhosphorMessage ''after-attach'', Job] (new_view col)) =
       [ClassList_add ''odysis-scene'', New_Renderer 0, Displayed, Renderer_initialize 0,
        Renderer_backgroundColor 0 col, Window_addEventListener ''resize'',
        Model_on ''change:background_color'']"
    by (simp add: run_def new_view_def SceneView_render_def displayed_then_def emit_def
        displayed_callback_def SceneView_initEventListeners_def resolve_displayed_def
        SceneView_processPhosphorMessage_def DOMWidgetView_processPhosphorMessage_def)
  from 3 have t3: "count_list as Render \<le> 1 \<longrightarrow>
        (\<forall>xs n c ys. trace ?v = xs @ Renderer_backgroundColor n c # ys
           \<longrightarrow> Renderer_initialize n \<in> set xs)" by (rule impI)
  from 4 have t4: "(\<forall>a\<in>set as. \<not> signals_display a) \<longrightarrow>
        (\<forall>n. Renderer_initialize n \<notin> set (trace ?v))" by (rule impI)
  from 5 have t5: "0 < microtasks ?v \<longrightarrow>
        (\<exists>n. renderer ?v = Some n
           \<and> trace (run (as @ [Job]) (new_view col)) =
               trace ?v @ [Renderer_initialize n, Renderer_backgroundColor n (background_color ?v),
                  Window_addEventListener ''resize'', Model_on ''change:background_color''])"
    by (rule impI)
  from 1 2 t3 t4 t5 6 7 show ?thesis by (intro conjI) assumption+
qed

theorem renderer_initialized_after_displayed_witness:
  "Renderer_initialize 0 \<notin> set (trace (run [Render, Job, WindowResize] (new_view (VStr ''#fff''))))
   \<and> trace (run [Render, Display, Job] (new_view (VStr ''#fff''))) =
       [ClassList_add ''odysis-scene'', New_Renderer 0, Displayed, Renderer_initialize 0,
        Renderer_backgroundColor 0 (VStr ''#fff''), Window_addEventListener ''resize'',
        Model_on ''change:background_color'']
   \<and> trace (run [Render, PhosphorMessage ''after-attach'', Job] (new_view (VStr ''#fff''))) =
       [ClassList_add ''odysis-scene'', New_Renderer 0, Displayed, Renderer_initialize 0,
        Renderer_backgroundColor 0 (VStr ''#fff''), Window_addEventListener ''resize'',
        Model_on ''change:background_color'']"
  using renderer_initialized_after_displayed [of "[Render, Job, WindowResize]" "VStr ''#fff''"]
  by simp



text \<open>
  C10. The initialization of a block model makes two calls into the core: the
  constructor and the assignment of \<^verbatim>\<open>defaultColor\<close>. The log is the same whatever
  \<^verbatim>\<open>default_alpha\<close> is given, so the attribute reaches the block neither through the
  constructor nor through an assignment; a later change of \<^verbatim>\<open>default_alpha\<close> assigns
  \<^verbatim>\<open>defaultAlpha\<close>.
\<close>

theorem initialize_applies_color_only:
  assumes "initialize c r k a = (l, Inr m)"
    and "k \<noteq> ComponentModel \<and> k \<noteq> DataModel \<and> k \<noteq> SceneModel"
  shows "(\<exists>ct args. l = [New r ct args, Assign r ''defaultColor'' (get m ''default_color'')])
       \<and> (\<forall>x. fst (initialize c r k (a(''default_alpha'' \<mapsto> x))) = l)
       \<and> set_attr c' ''default_alpha'' v m =
           (m\<lparr>attrs := (attrs m)(''default_alpha'' \<mapsto> v)\<rparr>, [Assign r ''defaultAlpha'' v], None)"
proof -
  from assms(2) have ib: "initialize c r k b = BlockModel_initialize (new_model r k b)" for b
    by (simp add: initialize_block)
  from initialized [OF assms(1)] have r: "core_obj m = r" and ls: "listeners m = class_listeners k"
    and at: "attrs m = defaults k ++ a" by simp_all
  have g: "get (new_model r k a) q = get m q" for q
    by (simp add: get_def new_model_def at)
  have ro: "core_obj (new_model r k b) = r" for b by (simp add: new_model_def)
  from assms(1) obtain nb where nb: "createBlock r (new_model r k a) = Inr nb"
    and l: "l = [nb, Assign r ''defaultColor'' (get m ''default_color'')]"
    by (auto simp: ib BlockModel_initialize_def ro BlockModel_defaultColor_def g split: sum.splits)
  from createBlock_New [OF nb] l
  have 1: "\<exists>ct args. l = [New r ct args, Assign r ''defaultColor'' (get m ''default_color'')]"
    by auto
  have 2: "fst (initialize c r k (a(''default_alpha'' \<mapsto> x))) = l" for x
    by (simp add: ib BlockModel_initialize_def ro createBlock_default_alpha nb l
        BlockModel_defaultColor_def get_new_model_upd g)
  from assms(2) r
  have 3: "set_attr c' ''default_alpha'' v m =
           (m\<lparr>attrs := (attrs m)(''default_alpha'' \<mapsto> v)\<rparr>, [Assign r ''defaultAlpha'' v], None)"
    by (cases k)
      (simp_all add: set_attr_listeners [OF ls] class_listeners_simps get_upd
        BlockModel_defaultAlpha_def)
  from 1 2 3 show ?thesis by blast
qed

theorem initialize_applies_color_only_witness:
  "fst (initialize example_core 2 PolyMeshModel [''default_alpha'' \<mapsto> VNum (Fin (1 / 2))]) =
     [New 2 PolyMesh [VArr [], VArr [], VArr [], VRec [(''environmentMeshes'', VArr [])]],
      Assign 2 ''defaultColor'' (VStr ''#6395b0'')]
   \<and> set_attr example_core ''default_alpha'' (VNum (Fin (1 / 2))) example_polymesh =
       (example_polymesh\<lparr>attrs := (attrs example_polymesh)(''default_alpha'' \<mapsto> VNum (Fin (1 / 2)))\<rparr>,
        [Assign 2 ''defaultAlpha'' (VNum (Fin (1 / 2)))], None)"
  using initialize_applies_color_only [where c = example_core and c' = example_core
      and v = "VNum (Fin (1 / 2))", OF example_polymesh_init]
  by simp

end
